theory Spec2Isabelle
  imports Complex_Main
begin

section \<open>Python values\<close>

text \<open>
  The hunters of \<^verbatim>\<open>src/modules/hunting/apiserver.py\<close> are modelled under Python 3:
  \<^verbatim>\<open>requests\<close> hands out \<^verbatim>\<open>res.content\<close> as a \<^verbatim>\<open>bytes\<close> object, while the
  literal \<^verbatim>\<open>''\<close> and the text read from a file opened with mode \<^verbatim>\<open>'r'\<close> are
  \<^verbatim>\<open>str\<close> objects. An evidence attribute starts as the \<^verbatim>\<open>str\<close> \<^verbatim>\<open>''\<close> and later
  holds a \<^verbatim>\<open>bytes\<close> body, so its type is the union below; \<^verbatim>\<open>==\<close> and \<^verbatim>\<open>!=\<close> on
  these objects are equality of the datatype (a \<^verbatim>\<open>bytes\<close> object never equals a
  \<^verbatim>\<open>str\<close> object).
\<close>

datatype pyval = Str string | Bytes string | Bool bool

text \<open>
  The exceptions that the modelled code can let escape: the builtins raised by
  \<^verbatim>\<open>json.loads\<close>, by a subscript and by hashing; \<^verbatim>\<open>UnicodeDecodeError\<close>, raised by
  \<^verbatim>\<open>token.read()\<close> on a file that is not text; and exceptions of \<^verbatim>\<open>requests\<close> that are not
  a \<^verbatim>\<open>ConnectionError\<close>.
\<close>

datatype py_error =
    ValueError | KeyError | TypeError | UnicodeDecodeError
  | InvalidHeader | InvalidURL | ChunkedEncodingError | TooManyRedirects

subsection \<open>Objects produced by \<^verbatim>\<open>json.loads\<close>\<close>

text \<open>
  A decoded JSON document: \<^verbatim>\<open>None\<close>, \<^verbatim>\<open>bool\<close>, \<^verbatim>\<open>int\<close>, finite \<^verbatim>\<open>float\<close> (by its
  exact value), \<^verbatim>\<open>str\<close>, \<^verbatim>\<open>list\<close> and \<^verbatim>\<open>dict\<close> (its items in insertion order, the
  keys being strings and distinct). Non-finite floats are left out of the model.
\<close>

datatype json =
    JNull
  | JBool bool
  | JInt int
  | JFloat rat
  | JStr string
  | JArr "json list"
  | JObj "(string \<times> json) list"

text \<open>\<^verbatim>\<open>obj[k]\<close> for a string \<^verbatim>\<open>k\<close>: only a dict can be subscripted by a string.\<close>

fun getitem :: "json \<Rightarrow> string \<Rightarrow> py_error + json" where
  "getitem (JObj kvs) k = (case map_of kvs k of None \<Rightarrow> Inl KeyError | Some v \<Rightarrow> Inr v)"
| "getitem _ k = Inl TypeError"

text \<open>
  \<^verbatim>\<open>for item in obj\<close>: a list yields its elements, a dict its keys, a string its
  characters; nothing else is iterable.
\<close>

fun iterate :: "json \<Rightarrow> py_error + json list" where
  "iterate (JArr xs) = Inr xs"
| "iterate (JObj kvs) = Inr (map (\<lambda>kv. JStr (fst kv)) kvs)"
| "iterate (JStr s) = Inr (map (\<lambda>c. JStr [c]) s)"
| "iterate _ = Inl TypeError"

text \<open>
  Keys of a Python dict: hashable objects, identified up to \<^verbatim>\<open>==\<close>. Numbers compare
  by value across \<^verbatim>\<open>bool\<close>, \<^verbatim>\<open>int\<close> and \<^verbatim>\<open>float\<close> (\<^verbatim>\<open>True == 1 == 1.0\<close>); lists and
  dicts are unhashable.
\<close>

datatype key = KNone | KNum rat | KStr string

fun dict_key :: "json \<Rightarrow> py_error + key" where
  "dict_key JNull = Inr KNone"
| "dict_key (JBool b) = Inr (KNum (if b then 1 else 0))"
| "dict_key (JInt i) = Inr (KNum (of_int i))"
| "dict_key (JFloat r) = Inr (KNum r)"
| "dict_key (JStr s) = Inr (KStr s)"
| "dict_key (JArr xs) = Inl TypeError"
| "dict_key (JObj kvs) = Inl TypeError"

section \<open>Vulnerabilities\<close>

datatype category = RemoteCodeExec | AccessRisk | InformationDisclosure

text \<open>One constructor per \<^verbatim>\<open>Vulnerability\<close> class; the argument is \<^verbatim>\<open>self.evidence\<close>.\<close>

datatype finding =
    ServerApiAccess pyval
  | ServiceAccountTokenAccess pyval
  | PodListUnderDefaultNamespace pyval
  | PodListUnderAllNamespaces pyval
  | ListAllNamespaces pyval
  | CreateARole pyval
  | CreateAClusterRole pyval
  | PatchARole pyval
  | PatchAClusterRole pyval
  | DeleteARole pyval
  | DeleteAClusterRole pyval

fun vulnerability_name :: "finding \<Rightarrow> string" where
  "vulnerability_name (ServerApiAccess e) = ''Accessed to server API''"
| "vulnerability_name (ServiceAccountTokenAccess e) = ''Read access to pod's service account token''"
| "vulnerability_name (PodListUnderDefaultNamespace e) = ''Access to the pods list under default namespace''"
| "vulnerability_name (PodListUnderAllNamespaces e) = ''Access to the pods list under ALL namespaces''"
| "vulnerability_name (ListAllNamespaces e) = ''Access to the all namespaces list''"
| "vulnerability_name (CreateARole e) = ''Created a role''"
| "vulnerability_name (CreateAClusterRole e) = ''Created a cluster role''"
| "vulnerability_name (PatchARole e) = ''Patched a role''"
| "vulnerability_name (PatchAClusterRole e) = ''Patched a cluster role''"
| "vulnerability_name (DeleteARole e) = ''Deleted a role''"
| "vulnerability_name (DeleteAClusterRole e) = ''Deleted a cluster role''"

fun vulnerability_category :: "finding \<Rightarrow> category" where
  "vulnerability_category (ServerApiAccess e) = RemoteCodeExec"
| "vulnerability_category (ServiceAccountTokenAccess e) = AccessRisk"
| "vulnerability_category f = InformationDisclosure"

fun evidence :: "finding \<Rightarrow> pyval" where
  "evidence (ServerApiAccess e) = e"
| "evidence (ServiceAccountTokenAccess e) = e"
| "evidence (PodListUnderDefaultNamespace e) = e"
| "evidence (PodListUnderAllNamespaces e) = e"
| "evidence (ListAllNamespaces e) = e"
| "evidence (CreateARole e) = e"
| "evidence (CreateAClusterRole e) = e"
| "evidence (PatchARole e) = e"
| "evidence (PatchAClusterRole e) = e"
| "evidence (DeleteARole e) = e"
| "evidence (DeleteAClusterRole e) = e"

section \<open>The outside world\<close>

datatype http_method = GET | DELETE | PATCH

text \<open>
  One call of \<^verbatim>\<open>requests.get\<close>, \<^verbatim>\<open>requests.delete\<close> or \<^verbatim>\<open>requests.patch\<close>: its URL,
  its \<^verbatim>\<open>headers\<close> dict, \<^verbatim>\<open>verify\<close> and, for a patch, \<^verbatim>\<open>data\<close>.
\<close>

record request =
  meth :: http_method
  url :: string
  headers :: "(string \<times> string) list"
  verify :: bool
  req_data :: "(string \<times> string) list option"

text \<open>
  What such a call does: it returns a response (\<^verbatim>\<open>res.status_code\<close>, \<^verbatim>\<open>res.content\<close>),
  or it raises \<^verbatim>\<open>requests.exceptions.ConnectionError\<close> (DNS failure, refused connection,
  connect timeout), the one exception the probe methods catch, or it raises something
  else, which no probe method catches (\<^verbatim>\<open>InvalidHeader\<close> for a header value with a
  newline, \<^verbatim>\<open>InvalidURL\<close>, \<^verbatim>\<open>ChunkedEncodingError\<close>, \<^verbatim>\<open>TooManyRedirects\<close>).
\<close>

datatype http_outcome = Response int string | ConnectionError | Raises py_error

text \<open>
  Reading the token file: the text read, \<^verbatim>\<open>IOError\<close> from \<^verbatim>\<open>open\<close> or \<^verbatim>\<open>read\<close> (missing
  file, permission denied), or another exception (\<^verbatim>\<open>UnicodeDecodeError\<close>).
\<close>

datatype file_outcome = Data string | IOError | OtherError py_error

text \<open>
  The environment of a run: the token file, the \<^verbatim>\<open>requests\<close> library together with the
  API server (the outcome of a call may depend on the calls made before) and
  \<^verbatim>\<open>json.loads\<close> (\<open>None\<close> when it raises \<^verbatim>\<open>ValueError\<close>).
\<close>

record env =
  token_file :: file_outcome
  server :: "request list \<Rightarrow> request \<Rightarrow> http_outcome"
  json_loads :: "string \<Rightarrow> json option"

text \<open>
  What a run leaves outside the hunter object: the requests sent, oldest first, and the
  events handed to \<^verbatim>\<open>publish_event\<close>, oldest first.
\<close>

record world =
  sent :: "request list"
  published :: "finding list"

text \<open>
  Modelled from the spec: \<^verbatim>\<open>publish_event\<close> is inherited from the event framework, whose
  code is not in the module at hand. For each successful probe it hands one finding to the
  external reporting collaborator, which neither formats, ranks nor deduplicates it: the
  finding is appended to what was published.
\<close>

definition publish_event :: "finding \<Rightarrow> world \<Rightarrow> world" where
  "publish_event f w = w\<lparr>published := published w @ [f]\<rparr>"

text \<open>A call of \<^verbatim>\<open>requests\<close> is recorded, whatever comes of it, and the environment decides its outcome.\<close>

definition send :: "env \<Rightarrow> request \<Rightarrow> world \<Rightarrow> http_outcome \<times> world" where
  "send e r w = (server e (sent w) r, w\<lparr>sent := sent w @ [r]\<rparr>)"

section \<open>URLs\<close>

text \<open>\<^verbatim>\<open>str\<close> of a port number, as \<^verbatim>\<open>format\<close> prints it.\<close>

definition digit :: "nat \<Rightarrow> char" where
  "digit d = ''0123456789'' ! d"

fun str_nat :: "nat \<Rightarrow> string" where
  "str_nat n = (if n < 10 then [digit n] else str_nat (n div 10) @ [digit (n mod 10)])"

declare str_nat.simps [simp del]

record open_port_event =
  host :: string
  port :: nat

definition base_url :: "open_port_event \<Rightarrow> string" where
  "base_url ev = ''https://'' @ host ev @ '':'' @ str_nat (port ev)"

definition bearer :: "string \<Rightarrow> (string \<times> string) list" where
  "bearer token = [(''Authorization'', ''Bearer '' @ token)]"

section \<open>Passive hunter\<close>

text \<open>The attributes that both hunter classes set in \<^verbatim>\<open>__init__\<close>, then the passive hunter's own.\<close>

record hunter =
  event :: open_port_event
  api_server_evidence :: pyval
  service_account_token_evidence :: string

record passive_hunter = hunter +
  pod_list_under_default_namespace_evidence :: pyval
  pod_list_under_all_namespaces_evidence :: pyval

definition AccessApiServerViaServiceAccountToken :: "open_port_event \<Rightarrow> passive_hunter" where
  "AccessApiServerViaServiceAccountToken ev =
     \<lparr>event = ev, api_server_evidence = Str '''', service_account_token_evidence = '''',
      pod_list_under_default_namespace_evidence = Str '''',
      pod_list_under_all_namespaces_evidence = Str ''''\<rparr>"

text \<open>The three requests of the passive hunter, as its methods build them.\<close>

definition api_request :: "'a hunter_scheme \<Rightarrow> request" where
  "api_request self =
     \<lparr>meth = GET, url = base_url (event self) @ ''/api'',
      headers = bearer (service_account_token_evidence self), verify = False, req_data = None\<rparr>"

definition default_pods_request :: "'a hunter_scheme \<Rightarrow> request" where
  "default_pods_request self =
     \<lparr>meth = GET, url = base_url (event self) @ ''/api/v1/namespaces/'' @ ''default'' @ ''/pods'',
      headers = bearer (service_account_token_evidence self), verify = False, req_data = None\<rparr>"

definition all_pods_request :: "'a hunter_scheme \<Rightarrow> request" where
  "all_pods_request self =
     \<lparr>meth = GET, url = base_url (event self) @ ''/api/v1/pods'',
      headers = bearer (service_account_token_evidence self), verify = False, req_data = None\<rparr>"

definition access_api_server :: "env \<Rightarrow> passive_hunter \<times> world \<Rightarrow> (py_error + bool) \<times> passive_hunter \<times> world" where
  "access_api_server e sw =
     (case sw of (self, w) \<Rightarrow>
        (case send e (api_request self) w of
           (Response status_code content, w') \<Rightarrow>
             (Inr (status_code = 200 \<and> Bytes content \<noteq> Str ''''),
              self\<lparr>api_server_evidence := Bytes content\<rparr>, w')
         | (ConnectionError, w') \<Rightarrow> (Inr False, self, w')
         | (Raises err, w') \<Rightarrow> (Inl err, self, w')))"

text \<open>
  \<^verbatim>\<open>get_service_account_token\<close> has the same body in both classes; it touches only the
  attributes they share.
\<close>

definition get_service_account_token ::
  "env \<Rightarrow> 'a hunter_scheme \<Rightarrow> (py_error + bool) \<times> 'a hunter_scheme" where
  "get_service_account_token e self =
     (case token_file e of
        Data data \<Rightarrow> (Inr True, self\<lparr>service_account_token_evidence := data\<rparr>)
      | IOError \<Rightarrow> (Inr False, self)
      | OtherError err \<Rightarrow> (Inl err, self))"

definition get_pods_list_under_default_namespace ::
  "env \<Rightarrow> passive_hunter \<times> world \<Rightarrow> (py_error + bool) \<times> passive_hunter \<times> world" where
  "get_pods_list_under_default_namespace e sw =
     (case sw of (self, w) \<Rightarrow>
        (case send e (default_pods_request self) w of
           (Response status_code content, w') \<Rightarrow>
             (Inr (status_code = 200 \<and> Bytes content \<noteq> Str ''''),
              self\<lparr>pod_list_under_default_namespace_evidence := Bytes content\<rparr>, w')
         | (ConnectionError, w') \<Rightarrow> (Inr False, self, w')
         | (Raises err, w') \<Rightarrow> (Inl err, self, w')))"

definition get_pods_list_under_all_namespace ::
  "env \<Rightarrow> passive_hunter \<times> world \<Rightarrow> (py_error + bool) \<times> passive_hunter \<times> world" where
  "get_pods_list_under_all_namespace e sw =
     (case sw of (self, w) \<Rightarrow>
        (case send e (all_pods_request self) w of
           (Response status_code content, w') \<Rightarrow>
             (Inr (status_code = 200 \<and> Bytes content \<noteq> Str ''''),
              self\<lparr>pod_list_under_all_namespaces_evidence := Bytes content\<rparr>, w')
         | (ConnectionError, w') \<Rightarrow> (Inr False, self, w')
         | (Raises err, w') \<Rightarrow> (Inl err, self, w')))"

text \<open>
  \<^verbatim>\<open>execute\<close>: an exception that leaves a method ends the run; what was published and
  sent before stays.
\<close>

definition execute ::
  "env \<Rightarrow> passive_hunter \<times> world \<Rightarrow> py_error option \<times> passive_hunter \<times> world" where
  "execute e sw =
     (case sw of (self, w) \<Rightarrow>
        (case get_service_account_token e self of
           (Inl err, self1) \<Rightarrow> (Some err, self1, w)
         | (Inr False, self1) \<Rightarrow> (None, self1, w)
         | (Inr True, self1) \<Rightarrow>
             (let w1 = publish_event (ServiceAccountTokenAccess (Str (service_account_token_evidence self1))) w in
              case access_api_server e (self1, w1) of
                (Inl err, self2, w2) \<Rightarrow> (Some err, self2, w2)
              | (Inr ok2, self2, w2) \<Rightarrow>
             (let w2' = (if ok2 then publish_event (ServerApiAccess (api_server_evidence self2)) w2 else w2) in
              case get_pods_list_under_all_namespace e (self2, w2') of
                (Inl err, self3, w3) \<Rightarrow> (Some err, self3, w3)
              | (Inr ok3, self3, w3) \<Rightarrow>
             (let w3' = (if ok3 then publish_event (PodListUnderAllNamespaces (pod_list_under_all_namespaces_evidence self3)) w3 else w3) in
              case get_pods_list_under_default_namespace e (self3, w3') of
                (Inl err, self4, w4) \<Rightarrow> (Some err, self4, w4)
              | (Inr ok4, self4, w4) \<Rightarrow>
             (let w4' = (if ok4 then publish_event (PodListUnderDefaultNamespace (pod_list_under_default_namespace_evidence self4)) w4 else w4) in
              (None, self4, w4')))))))"

section \<open>Active hunter\<close>

record active_hunter = hunter +
  all_namespaces_evidence :: pyval
  namespace_roles_evidence :: pyval
  all_roles_evidence :: pyval
  cluster_roles_evidence :: pyval
  namespaces_and_their_pod_names :: "key \<rightharpoonup> json"

definition AccessApiServerViaServiceAccountTokenActive :: "open_port_event \<Rightarrow> active_hunter" where
  "AccessApiServerViaServiceAccountTokenActive ev =
     \<lparr>event = ev, api_server_evidence = Str '''', service_account_token_evidence = '''',
      all_namespaces_evidence = Str '''', namespace_roles_evidence = Str '''',
      all_roles_evidence = Str '''', cluster_roles_evidence = Str '''',
      namespaces_and_their_pod_names = Map.empty\<rparr>"

text \<open>
  One round of the loop over the items:
  \<^verbatim>\<open>self.namespaces_and_their_pod_names[item["metadata"]["namespace"]] = item["metadata"]["name"]\<close>.
  Python evaluates the right-hand side first, then the subscript of the target, and
  hashes the key when it stores.
\<close>

definition pod_entry :: "json \<Rightarrow> py_error + key \<times> json" where
  "pod_entry item =
     (case getitem item ''metadata'' of Inl err \<Rightarrow> Inl err | Inr md \<Rightarrow>
     (case getitem md ''name'' of Inl err \<Rightarrow> Inl err | Inr name \<Rightarrow>
     (case getitem item ''metadata'' of Inl err \<Rightarrow> Inl err | Inr md' \<Rightarrow>
     (case getitem md' ''namespace'' of Inl err \<Rightarrow> Inl err | Inr ns \<Rightarrow>
     (case dict_key ns of Inl err \<Rightarrow> Inl err | Inr k \<Rightarrow> Inr (k, name))))))"

text \<open>The loop: an exception leaves the rounds already done in the dict.\<close>

fun record_pods :: "(key \<rightharpoonup> json) \<Rightarrow> json list \<Rightarrow> py_error option \<times> (key \<rightharpoonup> json)" where
  "record_pods m [] = (None, m)"
| "record_pods m (item # items) =
     (case pod_entry item of
        Inl err \<Rightarrow> (Some err, m)
      | Inr (k, name) \<Rightarrow> record_pods (m(k \<mapsto> name)) items)"

text \<open>
  \<^verbatim>\<open>json.loads(res.content)\<close> followed by the loop over \<^verbatim>\<open>parsed_response_content["items"]\<close>,
  the same three lines in both pod-list methods of the active hunter.
\<close>

definition parse_pods :: "env \<Rightarrow> string \<Rightarrow> active_hunter \<Rightarrow> py_error option \<times> active_hunter" where
  "parse_pods e content self =
     (case json_loads e content of
        None \<Rightarrow> (Some ValueError, self)
      | Some parsed_response_content \<Rightarrow>
          (case getitem parsed_response_content ''items'' of
             Inl err \<Rightarrow> (Some err, self)
           | Inr its \<Rightarrow>
               (case iterate its of
                  Inl err \<Rightarrow> (Some err, self)
                | Inr items \<Rightarrow>
                    (case record_pods (namespaces_and_their_pod_names self) items of
                       (raised, m) \<Rightarrow> (raised, self\<lparr>namespaces_and_their_pod_names := m\<rparr>)))))"

definition get_pods_list_under_default_namespace_active ::
  "env \<Rightarrow> active_hunter \<times> world \<Rightarrow> (py_error + bool) \<times> active_hunter \<times> world" where
  "get_pods_list_under_default_namespace_active e sw =
     (case sw of (self, w) \<Rightarrow>
        (case send e (default_pods_request self) w of
           (Response status_code content, w') \<Rightarrow>
             (case parse_pods e content self of
                (Some err, self') \<Rightarrow> (Inl err, self', w')
              | (None, self') \<Rightarrow>
                  (Inr (status_code = 200 \<and> Bytes content \<noteq> Str ''''), self', w'))
         | (ConnectionError, w') \<Rightarrow> (Inr False, self, w')
         | (Raises err, w') \<Rightarrow> (Inl err, self, w')))"

definition get_pods_list_under_all_namespace_active ::
  "env \<Rightarrow> active_hunter \<times> world \<Rightarrow> (py_error + bool) \<times> active_hunter \<times> world" where
  "get_pods_list_under_all_namespace_active e sw =
     (case sw of (self, w) \<Rightarrow>
        (case send e (all_pods_request self) w of
           (Response status_code content, w') \<Rightarrow>
             (case parse_pods e content self of
                (Some err, self') \<Rightarrow> (Inl err, self', w')
              | (None, self') \<Rightarrow>
                  (Inr (status_code = 200 \<and> Bytes content \<noteq> Str ''''), self', w'))
         | (ConnectionError, w') \<Rightarrow> (Inr False, self, w')
         | (Raises err, w') \<Rightarrow> (Inl err, self, w')))"

text \<open>The methods whose body is \<^verbatim>\<open>pass\<close> send nothing and change nothing.\<close>

definition create_a_pod :: "active_hunter \<times> world \<Rightarrow> active_hunter \<times> world" where
  "create_a_pod sw = sw"

definition pod_request :: "http_method \<Rightarrow> active_hunter \<Rightarrow> string \<Rightarrow> string \<Rightarrow> request" where
  "pod_request m self pod_namespace pod_name =
     \<lparr>meth = m,
      url = base_url (event self) @ ''/api/v1/namespaces/'' @ pod_namespace @ ''/pods/'' @ pod_name,
      headers = bearer (service_account_token_evidence self), verify = False,
      req_data = (if m = PATCH then Some [] else None)\<rparr>"

definition delete_a_pod ::
  "env \<Rightarrow> string \<Rightarrow> string \<Rightarrow> active_hunter \<times> world \<Rightarrow>
     (py_error + bool) \<times> active_hunter \<times> world" where
  "delete_a_pod e pod_namespace pod_name sw =
     (case sw of (self, w) \<Rightarrow>
        (case send e (pod_request DELETE self pod_namespace pod_name) w of
           (Response status_code content, w') \<Rightarrow>
             (Inr (status_code = 200 \<and> Bytes content \<noteq> Str ''''), self, w')
         | (ConnectionError, w') \<Rightarrow> (Inr False, self, w')
         | (Raises err, w') \<Rightarrow> (Inl err, self, w')))"

definition patch_a_pod ::
  "env \<Rightarrow> string \<Rightarrow> string \<Rightarrow> active_hunter \<times> world \<Rightarrow>
     (py_error + bool) \<times> active_hunter \<times> world" where
  "patch_a_pod e pod_namespace pod_name sw =
     (case sw of (self, w) \<Rightarrow>
        (case send e (pod_request PATCH self pod_namespace pod_name) w of
           (Response status_code content, w') \<Rightarrow>
             (Inr (status_code = 200 \<and> Bytes content \<noteq> Str ''''), self, w')
         | (ConnectionError, w') \<Rightarrow> (Inr False, self, w')
         | (Raises err, w') \<Rightarrow> (Inl err, self, w')))"

definition all_namespaces_request :: "active_hunter \<Rightarrow> request" where
  "all_namespaces_request self =
     \<lparr>meth = GET, url = base_url (event self) @ ''/api/v1/namespaces'',
      headers = bearer (service_account_token_evidence self), verify = False, req_data = None\<rparr>"

definition get_all_namespaces ::
  "env \<Rightarrow> active_hunter \<times> world \<Rightarrow> (py_error + bool) \<times> active_hunter \<times> world" where
  "get_all_namespaces e sw =
     (case sw of (self, w) \<Rightarrow>
        (case send e (all_namespaces_request self) w of
           (Response status_code content, w') \<Rightarrow>
             (case json_loads e content of
                None \<Rightarrow> (Inl ValueError, self, w')
              | Some parsed_response_content \<Rightarrow>
                  (Inr (status_code = 200 \<and> Bytes content \<noteq> Str ''''), self, w'))
         | (ConnectionError, w') \<Rightarrow> (Inr False, self, w')
         | (Raises err, w') \<Rightarrow> (Inl err, self, w')))"

definition create_namespace :: "active_hunter \<times> world \<Rightarrow> active_hunter \<times> world" where
  "create_namespace sw = sw"

text \<open>
  The role methods return \<^verbatim>\<open>res.content\<close> or \<^verbatim>\<open>False\<close>. All three assign
  \<^verbatim>\<open>self.namespace_roles_evidence\<close>.
\<close>

definition rbac_request :: "active_hunter \<Rightarrow> string \<Rightarrow> request" where
  "rbac_request self path =
     \<lparr>meth = GET, url = base_url (event self) @ ''/apis/rbac.authorization.k8s.io/v1/'' @ path,
      headers = bearer (service_account_token_evidence self), verify = False, req_data = None\<rparr>"

definition get_roles_for_namespace ::
  "env \<Rightarrow> string \<Rightarrow> active_hunter \<times> world \<Rightarrow> (py_error + pyval) \<times> active_hunter \<times> world" where
  "get_roles_for_namespace e namespace sw =
     (case sw of (self, w) \<Rightarrow>
        (case send e (rbac_request self (''namespaces/'' @ namespace @ ''/roles'')) w of
           (Response status_code content, w') \<Rightarrow>
             (Inr (if status_code = 200 \<and> Bytes content \<noteq> Str '''' then Bytes content else Bool False),
              self\<lparr>namespace_roles_evidence := Bytes content\<rparr>, w')
         | (ConnectionError, w') \<Rightarrow> (Inr (Bool False), self, w')
         | (Raises err, w') \<Rightarrow> (Inl err, self, w')))"

definition get_cluster_roles ::
  "env \<Rightarrow> active_hunter \<times> world \<Rightarrow> (py_error + pyval) \<times> active_hunter \<times> world" where
  "get_cluster_roles e sw =
     (case sw of (self, w) \<Rightarrow>
        (case send e (rbac_request self ''clusterroles'') w of
           (Response status_code content, w') \<Rightarrow>
             (Inr (if status_code = 200 \<and> Bytes content \<noteq> Str '''' then Bytes content else Bool False),
              self\<lparr>namespace_roles_evidence := Bytes content\<rparr>, w')
         | (ConnectionError, w') \<Rightarrow> (Inr (Bool False), self, w')
         | (Raises err, w') \<Rightarrow> (Inl err, self, w')))"

definition get_all_roles ::
  "env \<Rightarrow> active_hunter \<times> world \<Rightarrow> (py_error + pyval) \<times> active_hunter \<times> world" where
  "get_all_roles e sw =
     (case sw of (self, w) \<Rightarrow>
        (case send e (rbac_request self ''roles'') w of
           (Response status_code content, w') \<Rightarrow>
             (Inr (if status_code = 200 \<and> Bytes content \<noteq> Str '''' then Bytes content else Bool False),
              self\<lparr>namespace_roles_evidence := Bytes content\<rparr>, w')
         | (ConnectionError, w') \<Rightarrow> (Inr (Bool False), self, w')
         | (Raises err, w') \<Rightarrow> (Inl err, self, w')))"

definition create_role :: "active_hunter \<times> world \<Rightarrow> active_hunter \<times> world" where
  "create_role sw = sw"

definition create_cluster_role :: "active_hunter \<times> world \<Rightarrow> active_hunter \<times> world" where
  "create_cluster_role sw = sw"

definition delete_a_role :: "active_hunter \<times> world \<Rightarrow> active_hunter \<times> world" where
  "delete_a_role sw = sw"

definition delete_a_cluster_role :: "active_hunter \<times> world \<Rightarrow> active_hunter \<times> world" where
  "delete_a_cluster_role sw = sw"

definition patch_a_role :: "active_hunter \<times> world \<Rightarrow> active_hunter \<times> world" where
  "patch_a_role sw = sw"

definition patch_a_cluster_role :: "active_hunter \<times> world \<Rightarrow> active_hunter \<times> world" where
  "patch_a_cluster_role sw = sw"

text \<open>
  \<^verbatim>\<open>execute\<close> of the active hunter: the verdicts of the two pod lists are dropped and
  nothing is published; an exception ends the run where it is raised.
\<close>

definition execute_active ::
  "env \<Rightarrow> active_hunter \<times> world \<Rightarrow> py_error option \<times> active_hunter \<times> world" where
  "execute_active e sw =
     (case sw of (self, w) \<Rightarrow>
        (case get_service_account_token e self of
           (Inl err, self1) \<Rightarrow> (Some err, self1, w)
         | (Inr False, self1) \<Rightarrow> (None, self1, w)
         | (Inr True, self1) \<Rightarrow>
             (case get_pods_list_under_all_namespace_active e (self1, w) of
                (Inl err, self2, w2) \<Rightarrow> (Some err, self2, w2)
              | (Inr ok2, self2, w2) \<Rightarrow>
                  (case get_pods_list_under_default_namespace_active e (self2, w2) of
                     (Inl err, self3, w3) \<Rightarrow> (Some err, self3, w3)
                   | (Inr ok3, self3, w3) \<Rightarrow> (None, self3, w3)))))"

section \<open>Vocabulary of the properties\<close>

text \<open>
  The verdict a probe method returns for an outcome of its request, read off the
  \<^verbatim>\<open>return res.status_code == 200 and res.content != ''\<close> and the \<^verbatim>\<open>except\<close> clause that
  every probe method ends with.
\<close>

definition verdict :: "http_outcome \<Rightarrow> bool" where
  "verdict r =
     (case r of
        Response status_code content \<Rightarrow> status_code = 200 \<and> Bytes content \<noteq> Str ''''
      | ConnectionError \<Rightarrow> False
      | Raises err \<Rightarrow> False)"

text \<open>The findings of one kind that a step with the given outcome gives rise to.\<close>

definition emitted :: "(pyval \<Rightarrow> finding) \<Rightarrow> http_outcome \<Rightarrow> finding list" where
  "emitted kind r =
     (case r of
        Response status_code content \<Rightarrow> if verdict r then [kind (Bytes content)] else []
      | ConnectionError \<Rightarrow> []
      | Raises err \<Rightarrow> [])"

text \<open>The exception, if any, with which the call leaves the probe method.\<close>

definition escaping :: "http_outcome \<Rightarrow> py_error option" where
  "escaping r = (case r of Raises err \<Rightarrow> Some err | _ \<Rightarrow> None)"

text \<open>The call raised something that no probe method catches.\<close>

definition raises :: "http_outcome \<Rightarrow> bool" where
  "raises r = (case r of Raises err \<Rightarrow> True | _ \<Rightarrow> False)"

text \<open>The hunter once the token has been read.\<close>

definition with_token :: "string \<Rightarrow> 'a hunter_scheme \<Rightarrow> 'a hunter_scheme" where
  "with_token tok self = self\<lparr>service_account_token_evidence := tok\<rparr>"

text \<open>The requests that mutate the cluster.\<close>

definition mutations :: "request list \<Rightarrow> request list" where
  "mutations rs = filter (\<lambda>r. meth r = DELETE \<or> meth r = PATCH) rs"

subsection \<open>Concrete runs\<close>

definition example_event :: open_port_event where
  "example_event = \<lparr>host = ''10.96.0.1'', port = 443\<rparr>"

definition new_world :: world where
  "new_world = \<lparr>sent = [], published = []\<rparr>"

text \<open>No token file; the server would answer anything.\<close>

definition env_no_token :: env where
  "env_no_token =
     \<lparr>token_file = IOError, server = (\<lambda>history r. Response 200 ''ok''), json_loads = (\<lambda>b. None)\<rparr>"

text \<open>The token is there; the connection for the all-namespaces pod list is refused.\<close>

definition env_pods_refused :: env where
  "env_pods_refused =
     \<lparr>token_file = Data ''tok'',
      server = (\<lambda>history r. if url r = ''https://10.96.0.1:443/api/v1/pods'' then ConnectionError
                               else Response 200 ''{}''),
      json_loads = (\<lambda>b. None)\<rparr>"

text \<open>
  The token file ends with a newline, which \<^verbatim>\<open>requests\<close> refuses in a header value;
  the server would answer 200.
\<close>

definition env_token_newline :: env where
  "env_token_newline =
     \<lparr>token_file = Data (''tok'' @ [CHR 0x0A]),
      server = (\<lambda>history r. if CHR 0x0A \<in> set (concat (map snd (headers r))) then Raises InvalidHeader
                               else Response 200 ''{}''),
      json_loads = (\<lambda>b. None)\<rparr>"

text \<open>JSON text: a string in double quotes.\<close>

definition quoted :: "string \<Rightarrow> string" where
  "quoted s = [CHR 0x22] @ s @ [CHR 0x22]"

definition pod_json :: "string \<Rightarrow> string \<Rightarrow> json" where
  "pod_json ns name = JObj [(''metadata'', JObj [(''namespace'', JStr ns), (''name'', JStr name)])]"

definition pod_text :: "string \<Rightarrow> string \<Rightarrow> string" where
  "pod_text ns name =
     ''{'' @ quoted ''metadata'' @ '': {'' @ quoted ''namespace'' @ '': '' @ quoted ns @ '', ''
       @ quoted ''name'' @ '': '' @ quoted name @ ''}}''"

definition pod_list_body :: string where
  "pod_list_body =
     ''{'' @ quoted ''items'' @ '': ['' @ pod_text ''default'' ''web-1'' @ '', ''
       @ pod_text ''kube-system'' ''dns'' @ '', '' @ pod_text ''default'' ''web-2'' @ '']}''"

definition pod_list_json :: json where
  "pod_list_json =
     JObj [(''items'', JArr [pod_json ''default'' ''web-1'', pod_json ''kube-system'' ''dns'',
                             pod_json ''default'' ''web-2''])]"

definition env_pod_list :: "int \<Rightarrow> env" where
  "env_pod_list status_code =
     \<lparr>token_file = Data ''tok'',
      server = (\<lambda>history r. Response status_code pod_list_body),
      json_loads = (\<lambda>b. if b = pod_list_body then Some pod_list_json else None)\<rparr>"

text \<open>The token is there; the server answers 200 with an empty body to every request.\<close>

definition env_empty_200 :: env where
  "env_empty_200 =
     \<lparr>token_file = Data ''tok'', server = (\<lambda>history r. Response 200 ''''), json_loads = (\<lambda>b. None)\<rparr>"

text \<open>The token is there; every connection is refused.\<close>

definition env_refused :: env where
  "env_refused =
     \<lparr>token_file = Data ''tok'', server = (\<lambda>history r. ConnectionError), json_loads = (\<lambda>b. None)\<rparr>"

text \<open>
  The token is rejected with 401 and the plain text \<^verbatim>\<open>Unauthorized\<close>, on which
  \<^verbatim>\<open>json.loads\<close> raises.
\<close>

definition env_unauthorized :: env where
  "env_unauthorized =
     \<lparr>token_file = Data ''tok'', server = (\<lambda>history r. Response 401 ''Unauthorized''),
      json_loads = (\<lambda>b. None)\<rparr>"

text \<open>
  The token is not allowed to list anything: 403 with a JSON status object, which has no
  \<^verbatim>\<open>items\<close> member.
\<close>

definition forbidden_body :: string where
  "forbidden_body =
     ''{'' @ quoted ''kind'' @ '': '' @ quoted ''Status'' @ '', '' @ quoted ''code'' @ '': 403}''"

definition env_forbidden :: env where
  "env_forbidden =
     \<lparr>token_file = Data ''tok'', server = (\<lambda>history r. Response 403 forbidden_body),
      json_loads = (\<lambda>b. if b = forbidden_body
                          then Some (JObj [(''kind'', JStr ''Status''), (''code'', JInt 403)])
                          else None)\<rparr>"

text \<open>The server answers 200 with an empty list of roles.\<close>

definition role_list_body :: string where
  "role_list_body = ''{'' @ quoted ''items'' @ '': []}''"

definition env_role_list :: env where
  "env_role_list =
     \<lparr>token_file = Data ''tok'', server = (\<lambda>history r. Response 200 role_list_body),
      json_loads = (\<lambda>b. if b = role_list_body then Some (JObj [(''items'', JArr [])]) else None)\<rparr>"

section \<open>Runs of the passive hunter\<close>

lemma base_url_example: "base_url example_event = ''https://10.96.0.1:443''"
  by (simp add: base_url_def example_event_def str_nat.simps digit_def)

lemma request_unchanged [simp]:
  "api_request (self\<lparr>api_server_evidence := x\<rparr>) = api_request self"
  "all_pods_request (self\<lparr>api_server_evidence := x\<rparr>) = all_pods_request self"
  "default_pods_request (self\<lparr>api_server_evidence := x\<rparr>) = default_pods_request self"
  "all_pods_request (ps\<lparr>pod_list_under_all_namespaces_evidence := x\<rparr>) = all_pods_request ps"
  "default_pods_request (ps\<lparr>pod_list_under_all_namespaces_evidence := x\<rparr>) = default_pods_request ps"
  "default_pods_request (ps\<lparr>pod_list_under_default_namespace_evidence := x\<rparr>) = default_pods_request ps"
  "all_pods_request (acts\<lparr>namespaces_and_their_pod_names := m\<rparr>) = all_pods_request acts"
  "default_pods_request (acts\<lparr>namespaces_and_their_pod_names := m\<rparr>) = default_pods_request acts"
  by (simp_all add: api_request_def all_pods_request_def default_pods_request_def)

text \<open>The run of the passive hunter once the token is read: what it raises, sends and publishes.\<close>

lemma execute_run:
  fixes self :: passive_hunter and w :: world and e :: env and tok :: string
  assumes "token_file e = Data tok"
  defines "s1 \<equiv> with_token tok self"
  defines "r1 \<equiv> server e (sent w) (api_request s1)"
  defines "r2 \<equiv> server e (sent w @ [api_request s1]) (all_pods_request s1)"
  defines "r3 \<equiv> server e (sent w @ [api_request s1, all_pods_request s1]) (default_pods_request s1)"
  shows "fst (execute e (self, w)) =
           (if raises r1 then escaping r1 else if raises r2 then escaping r2 else escaping r3)"
    and "sent (snd (snd (execute e (self, w)))) =
           sent w @ [api_request s1]
             @ (if raises r1 then [] else [all_pods_request s1]
             @ (if raises r2 then [] else [default_pods_request s1]))"
    and "published (snd (snd (execute e (self, w)))) =
           published w @ [ServiceAccountTokenAccess (Str tok)] @ emitted ServerApiAccess r1
             @ (if raises r1 then [] else emitted PodListUnderAllNamespaces r2
             @ (if raises r2 then [] else emitted PodListUnderDefaultNamespace r3))"
  using assms(1) unfolding s1_def r1_def r2_def r3_def with_token_def
  by (cases "server e (sent w) (api_request (self\<lparr>service_account_token_evidence := tok\<rparr>))";
      cases "server e (sent w @ [api_request (self\<lparr>service_account_token_evidence := tok\<rparr>)])
               (all_pods_request (self\<lparr>service_account_token_evidence := tok\<rparr>))";
      cases "server e (sent w @ [api_request (self\<lparr>service_account_token_evidence := tok\<rparr>),
                                 all_pods_request (self\<lparr>service_account_token_evidence := tok\<rparr>)])
               (default_pods_request (self\<lparr>service_account_token_evidence := tok\<rparr>))";
      simp add: execute_def get_service_account_token_def Let_def access_api_server_def
        get_pods_list_under_all_namespace_def get_pods_list_under_default_namespace_def send_def
        publish_event_def raises_def escaping_def emitted_def verdict_def)+

section \<open>Each probe method, outcome by outcome\<close>

lemma access_api_server_Response:
  "server e (sent w) (api_request self) = Response sc c \<Longrightarrow>
   access_api_server e (self, w) = (Inr (sc = 200), self\<lparr>api_server_evidence := Bytes c\<rparr>, w\<lparr>sent := sent w @ [api_request self]\<rparr>)"
  by (simp add: access_api_server_def send_def)

lemma access_api_server_ConnectionError:
  "server e (sent w) (api_request self) = ConnectionError \<Longrightarrow>
   access_api_server e (self, w) = (Inr False, self, w\<lparr>sent := sent w @ [api_request self]\<rparr>)"
  by (simp add: access_api_server_def send_def)

lemma access_api_server_Raises:
  "server e (sent w) (api_request self) = Raises x \<Longrightarrow>
   access_api_server e (self, w) = (Inl x, self, w\<lparr>sent := sent w @ [api_request self]\<rparr>)"
  by (simp add: access_api_server_def send_def)

lemma get_pods_list_under_all_namespace_Response:
  "server e (sent w) (all_pods_request self) = Response sc c \<Longrightarrow>
   get_pods_list_under_all_namespace e (self, w) = (Inr (sc = 200), self\<lparr>pod_list_under_all_namespaces_evidence := Bytes c\<rparr>, w\<lparr>sent := sent w @ [all_pods_request self]\<rparr>)"
  by (simp add: get_pods_list_under_all_namespace_def send_def)

lemma get_pods_list_under_all_namespace_ConnectionError:
  "server e (sent w) (all_pods_request self) = ConnectionError \<Longrightarrow>
   get_pods_list_under_all_namespace e (self, w) = (Inr False, self, w\<lparr>sent := sent w @ [all_pods_request self]\<rparr>)"
  by (simp add: get_pods_list_under_all_namespace_def send_def)

lemma get_pods_list_under_all_namespace_Raises:
  "server e (sent w) (all_pods_request self) = Raises x \<Longrightarrow>
   get_pods_list_under_all_namespace e (self, w) = (Inl x, self, w\<lparr>sent := sent w @ [all_pods_request self]\<rparr>)"
  by (simp add: get_pods_list_under_all_namespace_def send_def)

lemma get_pods_list_under_default_namespace_Response:
  "server e (sent w) (default_pods_request self) = Response sc c \<Longrightarrow>
   get_pods_list_under_default_namespace e (self, w) = (Inr (sc = 200), self\<lparr>pod_list_under_default_namespace_evidence := Bytes c\<rparr>, w\<lparr>sent := sent w @ [default_pods_request self]\<rparr>)"
  by (simp add: get_pods_list_under_default_namespace_def send_def)

lemma get_pods_list_under_default_namespace_ConnectionError:
  "server e (sent w) (default_pods_request self) = ConnectionError \<Longrightarrow>
   get_pods_list_under_default_namespace e (self, w) = (Inr False, self, w\<lparr>sent := sent w @ [default_pods_request self]\<rparr>)"
  by (simp add: get_pods_list_under_default_namespace_def send_def)

lemma get_pods_list_under_default_namespace_Raises:
  "server e (sent w) (default_pods_request self) = Raises x \<Longrightarrow>
   get_pods_list_under_default_namespace e (self, w) = (Inl x, self, w\<lparr>sent := sent w @ [default_pods_request self]\<rparr>)"
  by (simp add: get_pods_list_under_default_namespace_def send_def)

lemma delete_a_pod_Response:
  "server e (sent w) (pod_request DELETE aself ns n) = Response sc c \<Longrightarrow>
   delete_a_pod e ns n (aself, w) = (Inr (sc = 200), aself, w\<lparr>sent := sent w @ [pod_request DELETE aself ns n]\<rparr>)"
  by (simp add: delete_a_pod_def send_def)

lemma delete_a_pod_ConnectionError:
  "server e (sent w) (pod_request DELETE aself ns n) = ConnectionError \<Longrightarrow>
   delete_a_pod e ns n (aself, w) = (Inr False, aself, w\<lparr>sent := sent w @ [pod_request DELETE aself ns n]\<rparr>)"
  by (simp add: delete_a_pod_def send_def)

lemma delete_a_pod_Raises:
  "server e (sent w) (pod_request DELETE aself ns n) = Raises x \<Longrightarrow>
   delete_a_pod e ns n (aself, w) = (Inl x, aself, w\<lparr>sent := sent w @ [pod_request DELETE aself ns n]\<rparr>)"
  by (simp add: delete_a_pod_def send_def)

lemma patch_a_pod_Response:
  "server e (sent w) (pod_request PATCH aself ns n) = Response sc c \<Longrightarrow>
   patch_a_pod e ns n (aself, w) = (Inr (sc = 200), aself, w\<lparr>sent := sent w @ [pod_request PATCH aself ns n]\<rparr>)"
  by (simp add: patch_a_pod_def send_def)

lemma patch_a_pod_ConnectionError:
  "server e (sent w) (pod_request PATCH aself ns n) = ConnectionError \<Longrightarrow>
   patch_a_pod e ns n (aself, w) = (Inr False, aself, w\<lparr>sent := sent w @ [pod_request PATCH aself ns n]\<rparr>)"
  by (simp add: patch_a_pod_def send_def)

lemma patch_a_pod_Raises:
  "server e (sent w) (pod_request PATCH aself ns n) = Raises x \<Longrightarrow>
   patch_a_pod e ns n (aself, w) = (Inl x, aself, w\<lparr>sent := sent w @ [pod_request PATCH aself ns n]\<rparr>)"
  by (simp add: patch_a_pod_def send_def)

lemma get_roles_for_namespace_Response:
  "server e (sent w) (rbac_request aself (''namespaces/'' @ ns @ ''/roles'')) = Response sc c \<Longrightarrow>
   get_roles_for_namespace e ns (aself, w) =
     (Inr (if sc = 200 then Bytes c else Bool False), aself\<lparr>namespace_roles_evidence := Bytes c\<rparr>,
      w\<lparr>sent := sent w @ [rbac_request aself (''namespaces/'' @ ns @ ''/roles'')]\<rparr>)"
  by (simp add: get_roles_for_namespace_def send_def)

lemma get_roles_for_namespace_ConnectionError:
  "server e (sent w) (rbac_request aself (''namespaces/'' @ ns @ ''/roles'')) = ConnectionError \<Longrightarrow>
   get_roles_for_namespace e ns (aself, w) = (Inr (Bool False), aself, w\<lparr>sent := sent w @ [rbac_request aself (''namespaces/'' @ ns @ ''/roles'')]\<rparr>)"
  by (simp add: get_roles_for_namespace_def send_def)

lemma get_roles_for_namespace_Raises:
  "server e (sent w) (rbac_request aself (''namespaces/'' @ ns @ ''/roles'')) = Raises x \<Longrightarrow>
   get_roles_for_namespace e ns (aself, w) = (Inl x, aself, w\<lparr>sent := sent w @ [rbac_request aself (''namespaces/'' @ ns @ ''/roles'')]\<rparr>)"
  by (simp add: get_roles_for_namespace_def send_def)

lemma get_cluster_roles_Response:
  "server e (sent w) (rbac_request aself ''clusterroles'') = Response sc c \<Longrightarrow>
   get_cluster_roles e (aself, w) =
     (Inr (if sc = 200 then Bytes c else Bool False), aself\<lparr>namespace_roles_evidence := Bytes c\<rparr>,
      w\<lparr>sent := sent w @ [rbac_request aself ''clusterroles'']\<rparr>)"
  by (simp add: get_cluster_roles_def send_def)

lemma get_cluster_roles_ConnectionError:
  "server e (sent w) (rbac_request aself ''clusterroles'') = ConnectionError \<Longrightarrow>
   get_cluster_roles e (aself, w) = (Inr (Bool False), aself, w\<lparr>sent := sent w @ [rbac_request aself ''clusterroles'']\<rparr>)"
  by (simp add: get_cluster_roles_def send_def)

lemma get_cluster_roles_Raises:
  "server e (sent w) (rbac_request aself ''clusterroles'') = Raises x \<Longrightarrow>
   get_cluster_roles e (aself, w) = (Inl x, aself, w\<lparr>sent := sent w @ [rbac_request aself ''clusterroles'']\<rparr>)"
  by (simp add: get_cluster_roles_def send_def)

lemma get_all_roles_Response:
  "server e (sent w) (rbac_request aself ''roles'') = Response sc c \<Longrightarrow>
   get_all_roles e (aself, w) =
     (Inr (if sc = 200 then Bytes c else Bool False), aself\<lparr>namespace_roles_evidence := Bytes c\<rparr>,
      w\<lparr>sent := sent w @ [rbac_request aself ''roles'']\<rparr>)"
  by (simp add: get_all_roles_def send_def)

lemma get_all_roles_ConnectionError:
  "server e (sent w) (rbac_request aself ''roles'') = ConnectionError \<Longrightarrow>
   get_all_roles e (aself, w) = (Inr (Bool False), aself, w\<lparr>sent := sent w @ [rbac_request aself ''roles'']\<rparr>)"
  by (simp add: get_all_roles_def send_def)

lemma get_all_roles_Raises:
  "server e (sent w) (rbac_request aself ''roles'') = Raises x \<Longrightarrow>
   get_all_roles e (aself, w) = (Inl x, aself, w\<lparr>sent := sent w @ [rbac_request aself ''roles'']\<rparr>)"
  by (simp add: get_all_roles_def send_def)

lemma get_all_namespaces_Response:
  "server e (sent w) (all_namespaces_request aself) = Response sc c \<Longrightarrow>
   get_all_namespaces e (aself, w) =
     (case json_loads e c of None \<Rightarrow> Inl ValueError | Some parsed \<Rightarrow> Inr (sc = 200), aself,
      w\<lparr>sent := sent w @ [all_namespaces_request aself]\<rparr>)"
  by (simp add: get_all_namespaces_def send_def split: option.splits)

lemma get_all_namespaces_ConnectionError:
  "server e (sent w) (all_namespaces_request aself) = ConnectionError \<Longrightarrow>
   get_all_namespaces e (aself, w) = (Inr False, aself, w\<lparr>sent := sent w @ [all_namespaces_request aself]\<rparr>)"
  by (simp add: get_all_namespaces_def send_def)

lemma get_all_namespaces_Raises:
  "server e (sent w) (all_namespaces_request aself) = Raises x \<Longrightarrow>
   get_all_namespaces e (aself, w) = (Inl x, aself, w\<lparr>sent := sent w @ [all_namespaces_request aself]\<rparr>)"
  by (simp add: get_all_namespaces_def send_def)

lemma same_pod_names:
  "\<exists>m. (aself :: active_hunter) = aself\<lparr>namespaces_and_their_pod_names := m\<rparr>"
  by (rule exI [where x = "namespaces_and_their_pod_names aself"]) simp

lemma parse_pods_frame:
  "\<exists>m. snd (parse_pods e c aself) = aself\<lparr>namespaces_and_their_pod_names := m\<rparr>"
  by (auto simp: parse_pods_def same_pod_names split: option.splits sum.splits prod.splits)

lemma parse_pods_no_json:
  "json_loads e c = None \<Longrightarrow> parse_pods e c aself = (Some ValueError, aself)"
  by (simp add: parse_pods_def)

lemma get_pods_list_under_all_namespace_active_Response:
  "server e (sent w) (all_pods_request aself) = Response sc c \<Longrightarrow>
   get_pods_list_under_all_namespace_active e (aself, w) =
     (case fst (parse_pods e c aself) of Some err \<Rightarrow> Inl err | None \<Rightarrow> Inr (sc = 200),
      snd (parse_pods e c aself), w\<lparr>sent := sent w @ [all_pods_request aself]\<rparr>)"
  by (cases "parse_pods e c aself")
     (simp add: get_pods_list_under_all_namespace_active_def send_def split: option.splits)

lemma get_pods_list_under_all_namespace_active_ConnectionError:
  "server e (sent w) (all_pods_request aself) = ConnectionError \<Longrightarrow>
   get_pods_list_under_all_namespace_active e (aself, w) = (Inr False, aself, w\<lparr>sent := sent w @ [all_pods_request aself]\<rparr>)"
  by (simp add: get_pods_list_under_all_namespace_active_def send_def)

lemma get_pods_list_under_all_namespace_active_Raises:
  "server e (sent w) (all_pods_request aself) = Raises x \<Longrightarrow>
   get_pods_list_under_all_namespace_active e (aself, w) = (Inl x, aself, w\<lparr>sent := sent w @ [all_pods_request aself]\<rparr>)"
  by (simp add: get_pods_list_under_all_namespace_active_def send_def)

lemma get_pods_list_under_all_namespace_active_frame:
  "\<exists>res m. get_pods_list_under_all_namespace_active e (aself, w) =
     (res, aself\<lparr>namespaces_and_their_pod_names := m\<rparr>, w\<lparr>sent := sent w @ [all_pods_request aself]\<rparr>)"
proof (cases "server e (sent w) (all_pods_request aself)")
  case (Response sc c)
  obtain m where "snd (parse_pods e c aself) = aself\<lparr>namespaces_and_their_pod_names := m\<rparr>"
    using parse_pods_frame by blast
  then show ?thesis
    by (simp add: get_pods_list_under_all_namespace_active_Response [OF Response]) blast
next
  case ConnectionError
  then show ?thesis
    by (simp add: get_pods_list_under_all_namespace_active_ConnectionError same_pod_names)
next
  case (Raises x)
  then show ?thesis
    by (simp add: get_pods_list_under_all_namespace_active_Raises same_pod_names)
qed

lemma get_pods_list_under_default_namespace_active_Response:
  "server e (sent w) (default_pods_request aself) = Response sc c \<Longrightarrow>
   get_pods_list_under_default_namespace_active e (aself, w) =
     (case fst (parse_pods e c aself) of Some err \<Rightarrow> Inl err | None \<Rightarrow> Inr (sc = 200),
      snd (parse_pods e c aself), w\<lparr>sent := sent w @ [default_pods_request aself]\<rparr>)"
  by (cases "parse_pods e c aself")
     (simp add: get_pods_list_under_default_namespace_active_def send_def split: option.splits)

lemma get_pods_list_under_default_namespace_active_ConnectionError:
  "server e (sent w) (default_pods_request aself) = ConnectionError \<Longrightarrow>
   get_pods_list_under_default_namespace_active e (aself, w) = (Inr False, aself, w\<lparr>sent := sent w @ [default_pods_request aself]\<rparr>)"
  by (simp add: get_pods_list_under_default_namespace_active_def send_def)

lemma get_pods_list_under_default_namespace_active_Raises:
  "server e (sent w) (default_pods_request aself) = Raises x \<Longrightarrow>
   get_pods_list_under_default_namespace_active e (aself, w) = (Inl x, aself, w\<lparr>sent := sent w @ [default_pods_request aself]\<rparr>)"
  by (simp add: get_pods_list_under_default_namespace_active_def send_def)

lemma get_pods_list_under_default_namespace_active_frame:
  "\<exists>res m. get_pods_list_under_default_namespace_active e (aself, w) =
     (res, aself\<lparr>namespaces_and_their_pod_names := m\<rparr>, w\<lparr>sent := sent w @ [default_pods_request aself]\<rparr>)"
proof (cases "server e (sent w) (default_pods_request aself)")
  case (Response sc c)
  obtain m where "snd (parse_pods e c aself) = aself\<lparr>namespaces_and_their_pod_names := m\<rparr>"
    using parse_pods_frame by blast
  then show ?thesis
    by (simp add: get_pods_list_under_default_namespace_active_Response [OF Response]) blast
next
  case ConnectionError
  then show ?thesis
    by (simp add: get_pods_list_under_default_namespace_active_ConnectionError same_pod_names)
next
  case (Raises x)
  then show ?thesis
    by (simp add: get_pods_list_under_default_namespace_active_Raises same_pod_names)
qed

text \<open>
  C1. When reading the service-account token file fails, a run of either hunter publishes
  no finding and sends no request: what was published and what was sent stay as they
  were. In particular no ServerApiAccess, PodListUnderAllNamespaces or
  PodListUnderDefaultNamespace finding comes out of such a run.
\<close>

theorem token_read_failure_ends_run:
  assumes "token_file e = IOError"
  shows "published (snd (snd (execute e (self, w)))) = published w
       \<and> sent (snd (snd (execute e (self, w)))) = sent w
       \<and> fst (execute e (self, w)) = None
       \<and> fst (execute_active e (aself, w)) = None
       \<and> published (snd (snd (execute_active e (aself, w)))) = published w
       \<and> sent (snd (snd (execute_active e (aself, w)))) = sent w"
  using assms by (simp add: execute_def execute_active_def get_service_account_token_def)

theorem token_read_failure_ends_run_witness:
  "token_file env_no_token = IOError
   \<and> published (snd (snd (execute env_no_token
        (AccessApiServerViaServiceAccountToken example_event, new_world)))) = []
   \<and> sent (snd (snd (execute env_no_token
        (AccessApiServerViaServiceAccountToken example_event, new_world)))) = []
   \<and> published (snd (snd (execute_active env_no_token
        (AccessApiServerViaServiceAccountTokenActive example_event, new_world)))) = []
   \<and> sent (snd (snd (execute_active env_no_token
        (AccessApiServerViaServiceAccountTokenActive example_event, new_world)))) = []"
  using token_read_failure_ends_run [of env_no_token
      "AccessApiServerViaServiceAccountToken example_event" new_world
      "AccessApiServerViaServiceAccountTokenActive example_event"]
  by (simp add: env_no_token_def new_world_def)

section \<open>Runs of the active hunter\<close>

lemma execute_active_frame:
  "\<exists>rs. published (snd (snd (execute_active e (self, w)))) = published w
      \<and> sent (snd (snd (execute_active e (self, w)))) = sent w @ rs \<and> mutations rs = []"
proof (cases "token_file e")
  case IOError
  then show ?thesis
    by (simp add: execute_active_def get_service_account_token_def mutations_def)
next
  case (OtherError err)
  then show ?thesis
    by (simp add: execute_active_def get_service_account_token_def mutations_def)
next
  case (Data tok)
  let ?s1 = "self\<lparr>service_account_token_evidence := tok\<rparr>"
  obtain res2 m2 where a: "get_pods_list_under_all_namespace_active e (?s1, w) =
     (res2, ?s1\<lparr>namespaces_and_their_pod_names := m2\<rparr>, w\<lparr>sent := sent w @ [all_pods_request ?s1]\<rparr>)"
    using get_pods_list_under_all_namespace_active_frame by blast
  let ?s2 = "?s1\<lparr>namespaces_and_their_pod_names := m2\<rparr>"
  let ?w2 = "w\<lparr>sent := sent w @ [all_pods_request ?s1]\<rparr>"
  obtain res3 m3 where b: "get_pods_list_under_default_namespace_active e (?s2, ?w2) =
     (res3, ?s2\<lparr>namespaces_and_their_pod_names := m3\<rparr>, ?w2\<lparr>sent := sent ?w2 @ [default_pods_request ?s2]\<rparr>)"
    using get_pods_list_under_default_namespace_active_frame by blast
  show ?thesis
    using Data a b
    by (cases res2; cases res3)
       (simp_all add: execute_active_def get_service_account_token_def mutations_def
          all_pods_request_def default_pods_request_def)
qed

text \<open>
  C9. A run of the active hunter sends no DELETE and no PATCH request at all, so none
  against a namespace/name pair that no create probe of the run produced; the create,
  delete and patch methods for roles and cluster roles send nothing and change nothing.
\<close>

theorem active_run_sends_no_mutation:
  "(\<exists>rs. sent (snd (snd (execute_active e (self, w)))) = sent w @ rs \<and> mutations rs = [])
   \<and> create_a_pod (self, w) = (self, w)
   \<and> create_role (self, w) = (self, w)
   \<and> create_cluster_role (self, w) = (self, w)
   \<and> delete_a_role (self, w) = (self, w)
   \<and> delete_a_cluster_role (self, w) = (self, w)
   \<and> patch_a_role (self, w) = (self, w)
   \<and> patch_a_cluster_role (self, w) = (self, w)"
proof -
  obtain rs where "sent (snd (snd (execute_active e (self, w)))) = sent w @ rs" "mutations rs = []"
    using execute_active_frame by blast
  then show ?thesis
    by (auto simp: create_a_pod_def create_role_def create_cluster_role_def delete_a_role_def
          delete_a_cluster_role_def patch_a_role_def patch_a_cluster_role_def)
qed

section \<open>The dict of namespaces and pod names\<close>

lemma pod_entry_pod_json [simp]: "pod_entry (pod_json ns name) = Inr (KStr ns, JStr name)"
  by (simp add: pod_entry_def pod_json_def)








section \<open>The verdict of a probe\<close>

text \<open>
  C2 at the input where the code departs from it: the token is read and the server
  answers \<^verbatim>\<open>GET /api\<close> with status 200 and an empty body. The run publishes a
  ServerApiAccess finding whose evidence is the empty body.
\<close>

theorem empty_body_api_probe_emits_finding:
  "published (snd (snd (execute env_empty_200
      (AccessApiServerViaServiceAccountToken example_event, new_world)))) =
     [ServiceAccountTokenAccess (Str ''tok''), ServerApiAccess (Bytes ''''),
      PodListUnderAllNamespaces (Bytes ''''), PodListUnderDefaultNamespace (Bytes '''')]"
proof -
  have tok: "token_file env_empty_200 = Data ''tok''"
    by (simp add: env_empty_200_def)
  have answer: "server env_empty_200 history r = Response 200 []" for history r
    by (simp add: env_empty_200_def)
  show ?thesis
    by (simp add: execute_run(3) [OF tok] answer emitted_def verdict_def raises_def new_world_def)
qed

section \<open>Exceptions and evidence attributes of the active hunter\<close>

text \<open>
  C5 at inputs where the code departs from it: the pod-list methods of the active hunter
  call \<^verbatim>\<open>json.loads\<close> and subscript the result inside a \<^verbatim>\<open>try\<close> that catches only
  \<^verbatim>\<open>ConnectionError\<close>. On a 401 with the plain text \<^verbatim>\<open>Unauthorized\<close> the method raises
  \<^verbatim>\<open>ValueError\<close>, on a 403 with a JSON status object it raises \<^verbatim>\<open>KeyError\<close>, and the run
  of the active hunter ends with that exception.
\<close>

theorem pod_list_parse_errors_escape:
  "fst (get_pods_list_under_all_namespace_active env_unauthorized
          (with_token ''tok'' (AccessApiServerViaServiceAccountTokenActive example_event), new_world))
     = Inl ValueError
   \<and> fst (execute_active env_unauthorized
          (AccessApiServerViaServiceAccountTokenActive example_event, new_world)) = Some ValueError
   \<and> fst (get_pods_list_under_default_namespace_active env_forbidden
          (with_token ''tok'' (AccessApiServerViaServiceAccountTokenActive example_event), new_world))
     = Inl KeyError
   \<and> fst (execute_active env_forbidden
          (AccessApiServerViaServiceAccountTokenActive example_event, new_world)) = Some KeyError"
  by (simp add: execute_active_def get_service_account_token_def
        get_pods_list_under_all_namespace_active_def get_pods_list_under_default_namespace_active_def
        send_def parse_pods_def env_unauthorized_def env_forbidden_def)

text \<open>
  C7 at inputs where the code departs from it: \<^verbatim>\<open>get_cluster_roles\<close> and
  \<^verbatim>\<open>get_all_roles\<close> store the response body in \<^verbatim>\<open>namespace_roles_evidence\<close>, the attribute
  of \<^verbatim>\<open>get_roles_for_namespace\<close>, and leave \<^verbatim>\<open>cluster_roles_evidence\<close> and
  \<^verbatim>\<open>all_roles_evidence\<close> as \<^verbatim>\<open>__init__\<close> set them.
\<close>

theorem role_probes_share_evidence_attribute:
  "namespace_roles_evidence (fst (snd (get_cluster_roles env_role_list
      (with_token ''tok'' (AccessApiServerViaServiceAccountTokenActive example_event), new_world))))
     = Bytes role_list_body
   \<and> cluster_roles_evidence (fst (snd (get_cluster_roles env_role_list
      (with_token ''tok'' (AccessApiServerViaServiceAccountTokenActive example_event), new_world))))
     = Str ''''
   \<and> namespace_roles_evidence (fst (snd (get_all_roles env_role_list
      (with_token ''tok'' (AccessApiServerViaServiceAccountTokenActive example_event), new_world))))
     = Bytes role_list_body
   \<and> all_roles_evidence (fst (snd (get_all_roles env_role_list
      (with_token ''tok'' (AccessApiServerViaServiceAccountTokenActive example_event), new_world))))
     = Str ''''
   \<and> namespace_roles_evidence (fst (snd (get_roles_for_namespace env_role_list ''default''
      (with_token ''tok'' (AccessApiServerViaServiceAccountTokenActive example_event), new_world))))
     = Bytes role_list_body"
  by (simp add: get_cluster_roles_def get_all_roles_def get_roles_for_namespace_def send_def
        env_role_list_def with_token_def AccessApiServerViaServiceAccountTokenActive_def)

section \<open>Which probes a run of the passive hunter reaches\<close>

lemma raises_iff: "raises r = (\<exists>x. r = Raises x)"
  by (cases r) (simp_all add: raises_def)

lemma escaping_Raises [simp]: "escaping (Raises x) = Some x"
  by (simp add: escaping_def)

text \<open>
  C3 fails when a call raises something other than \<^verbatim>\<open>ConnectionError\<close>: the token read
  ends with a newline, \<^verbatim>\<open>requests\<close> refuses the header of the first request with
  \<^verbatim>\<open>InvalidHeader\<close>, no probe method catches it, and the run ends there. One request was
  attempted, the two pod lists were not, and the token finding is the only one published.
\<close>

theorem run_ends_at_uncaught_exception:
  "token_file env_token_newline = Data (''tok'' @ [CHR 0x0A])
   \<and> fst (execute env_token_newline
         (AccessApiServerViaServiceAccountToken example_event, new_world)) = Some InvalidHeader
   \<and> map url (sent (snd (snd (execute env_token_newline
         (AccessApiServerViaServiceAccountToken example_event, new_world))))) =
       [''https://10.96.0.1:443/api'']
   \<and> published (snd (snd (execute env_token_newline
         (AccessApiServerViaServiceAccountToken example_event, new_world)))) =
       [ServiceAccountTokenAccess (Str (''tok'' @ [CHR 0x0A]))]"
proof -
  let ?s0 = "AccessApiServerViaServiceAccountToken example_event"
  have tok: "token_file env_token_newline = Data (''tok'' @ [CHR 0x0A])"
    by (simp add: env_token_newline_def)
  have r1: "server env_token_newline (sent new_world)
      (api_request (with_token (''tok'' @ [CHR 0x0A]) ?s0)) = Raises InvalidHeader"
    by (simp add: env_token_newline_def api_request_def with_token_def bearer_def)
  note run = execute_run [OF tok, of ?s0 new_world, unfolded r1]
  have a: "fst (execute env_token_newline (?s0, new_world)) = Some InvalidHeader"
    using run(1) by (simp add: raises_def)
  have "sent (snd (snd (execute env_token_newline (?s0, new_world)))) =
      sent new_world @ [api_request (with_token (''tok'' @ [CHR 0x0A]) ?s0)]"
    using run(2) by (simp add: raises_def)
  then have b: "map url (sent (snd (snd (execute env_token_newline (?s0, new_world))))) =
      [''https://10.96.0.1:443/api'']"
    by (simp add: new_world_def api_request_def with_token_def
          AccessApiServerViaServiceAccountToken_def base_url_example)
  have c: "published (snd (snd (execute env_token_newline (?s0, new_world)))) =
      [ServiceAccountTokenAccess (Str (''tok'' @ [CHR 0x0A]))]"
    using run(3) by (simp add: raises_def emitted_def new_world_def)
  from tok a b c show ?thesis
    by (intro conjI)
qed

text \<open>
  C3, amended. Once the token is read, a run of the passive hunter calls the probe
  methods in the order GET /api, GET /api/v1/pods, GET /api/v1/namespaces/default/pods,
  and goes on to the next one whatever the verdict of the one before: success, a status
  other than 200 or a \<^verbatim>\<open>ConnectionError\<close>. Only an exception other than \<^verbatim>\<open>ConnectionError\<close>
  stops it: the run ends with that exception at the probe that raised it, and the later
  probes are not called. So if neither of the first two calls raises, all three requests
  are made; in particular a \<^verbatim>\<open>ConnectionError\<close> on the all-namespaces pod list is followed
  by the default-namespace pod list.
\<close>

theorem passive_run_probes_in_order:
  assumes "token_file e = Data tok"
  shows
    "(let s1 = with_token tok self;
          r1 = server e (sent w) (api_request s1);
          r2 = server e (sent w @ [api_request s1]) (all_pods_request s1);
          r3 = server e (sent w @ [api_request s1, all_pods_request s1]) (default_pods_request s1);
          after = snd (snd (execute e (self, w)))
      in sent after =
           sent w @ [api_request s1]
             @ (if \<exists>x. r1 = Raises x then [] else [all_pods_request s1]
             @ (if \<exists>x. r2 = Raises x then [] else [default_pods_request s1]))
       \<and> fst (execute e (self, w)) =
           (if \<exists>x. r1 = Raises x then escaping r1
            else if \<exists>x. r2 = Raises x then escaping r2 else escaping r3)
       \<and> escaping (Raises x) = Some x \<and> escaping ConnectionError = None
       \<and> escaping (Response sc c) = None
       \<and> ((\<forall>x. r1 \<noteq> Raises x) \<and> (\<forall>x. r2 \<noteq> Raises x) \<longrightarrow>
            sent after = sent w @ [api_request s1, all_pods_request s1, default_pods_request s1]
            \<and> map meth (drop (length (sent w)) (sent after)) = [GET, GET, GET]
            \<and> map url (drop (length (sent w)) (sent after)) =
                [base_url (event self) @ ''/api'', base_url (event self) @ ''/api/v1/pods'',
                 base_url (event self) @ ''/api/v1/namespaces/default/pods''])
       \<and> ((\<forall>x. r1 \<noteq> Raises x) \<and> r2 = ConnectionError \<longrightarrow>
            sent after = sent w @ [api_request s1, all_pods_request s1, default_pods_request s1]))"
  unfolding Let_def
  by (simp add: execute_run [OF assms] raises_iff escaping_def
        api_request_def all_pods_request_def default_pods_request_def with_token_def)

theorem passive_run_probes_in_order_witness:
  "token_file env_pods_refused = Data ''tok''
   \<and> server env_pods_refused [api_request (with_token ''tok'' (AccessApiServerViaServiceAccountToken example_event))]
        (all_pods_request (with_token ''tok'' (AccessApiServerViaServiceAccountToken example_event))) = ConnectionError
   \<and> map url (sent (snd (snd (execute env_pods_refused
        (AccessApiServerViaServiceAccountToken example_event, new_world))))) =
       [''https://10.96.0.1:443/api'', ''https://10.96.0.1:443/api/v1/pods'',
        ''https://10.96.0.1:443/api/v1/namespaces/default/pods'']
   \<and> fst (execute env_pods_refused
        (AccessApiServerViaServiceAccountToken example_event, new_world)) = None"
proof -
  let ?s0 = "AccessApiServerViaServiceAccountToken example_event"
  let ?s1 = "with_token ''tok'' ?s0"
  have tok: "token_file env_pods_refused = Data ''tok''"
    by (simp add: env_pods_refused_def)
  have r1: "server env_pods_refused (sent new_world) (api_request ?s1) = Response 200 ''{}''"
    by (simp add: env_pods_refused_def api_request_def with_token_def
          AccessApiServerViaServiceAccountToken_def base_url_example)
  have r2: "server env_pods_refused (sent new_world @ [api_request ?s1]) (all_pods_request ?s1) = ConnectionError"
    by (simp add: env_pods_refused_def all_pods_request_def with_token_def
          AccessApiServerViaServiceAccountToken_def base_url_example)
  have r3: "server env_pods_refused (sent new_world @ [api_request ?s1, all_pods_request ?s1])
      (default_pods_request ?s1) = Response 200 ''{}''"
    by (simp add: env_pods_refused_def default_pods_request_def with_token_def
          AccessApiServerViaServiceAccountToken_def base_url_example)
  have s: "sent new_world = []"
    by (simp add: new_world_def)
  note t = passive_run_probes_in_order [OF tok, of ?s0 new_world, unfolded Let_def r1 r2 r3]
  have u: "map url (drop (length (sent new_world)) (sent (snd (snd (execute env_pods_refused (?s0, new_world)))))) =
      [base_url (event ?s0) @ ''/api'', base_url (event ?s0) @ ''/api/v1/pods'',
       base_url (event ?s0) @ ''/api/v1/namespaces/default/pods'']"
    using t by (simp add: api_request_def all_pods_request_def default_pods_request_def with_token_def)
  have a: "map url (sent (snd (snd (execute env_pods_refused (?s0, new_world))))) =
       [''https://10.96.0.1:443/api'', ''https://10.96.0.1:443/api/v1/pods'',
        ''https://10.96.0.1:443/api/v1/namespaces/default/pods'']"
    using u by (simp add: s AccessApiServerViaServiceAccountToken_def base_url_example)
  have b: "fst (execute env_pods_refused (?s0, new_world)) = None"
    using t by simp
  from tok r2 [unfolded s append_Nil] a b show ?thesis
    by (intro conjI)
qed

section \<open>Findings\<close>

text \<open>
  C6 fails for the active hunter: in this run the token is read and both pod lists succeed,
  yet nothing is published.
\<close>

theorem active_run_publishes_nothing:
  "fst (get_service_account_token (env_pod_list 200)
          (AccessApiServerViaServiceAccountTokenActive example_event)) = Inr True
   \<and> fst (get_pods_list_under_all_namespace_active (env_pod_list 200)
          (with_token ''tok'' (AccessApiServerViaServiceAccountTokenActive example_event), new_world))
       = Inr True
   \<and> fst (get_pods_list_under_default_namespace_active (env_pod_list 200)
          (with_token ''tok'' (AccessApiServerViaServiceAccountTokenActive example_event), new_world))
       = Inr True
   \<and> fst (execute_active (env_pod_list 200)
          (AccessApiServerViaServiceAccountTokenActive example_event, new_world)) = None
   \<and> published (snd (snd (execute_active (env_pod_list 200)
          (AccessApiServerViaServiceAccountTokenActive example_event, new_world)))) = []"
  by (simp add: execute_active_def get_service_account_token_def
        get_pods_list_under_all_namespace_active_def get_pods_list_under_default_namespace_active_def
        send_def parse_pods_def env_pod_list_def pod_list_json_def new_world_def)

lemma emitted_simps [simp]:
  "emitted kind (Response sc c) = (if verdict (Response sc c) then [kind (Bytes c)] else [])"
  "emitted kind ConnectionError = []"
  "emitted kind (Raises x) = []"
  by (simp_all add: emitted_def)

lemma verdict_simps [simp]:
  "verdict (Response sc c) = (sc = 200)"
  "verdict ConnectionError = False"
  "verdict (Raises x) = False"
  by (simp_all add: verdict_def)

lemma returns_True_iff_verdict:
  "(fst (access_api_server e (self, w)) = Inr True) = verdict (server e (sent w) (api_request self))"
  "(fst (get_pods_list_under_all_namespace e (self, w)) = Inr True) =
     verdict (server e (sent w) (all_pods_request self))"
  "(fst (get_pods_list_under_default_namespace e (self, w)) = Inr True) =
     verdict (server e (sent w) (default_pods_request self))"
  by (cases "server e (sent w) (api_request self)";
      cases "server e (sent w) (all_pods_request self)";
      cases "server e (sent w) (default_pods_request self)";
      simp add: access_api_server_def get_pods_list_under_all_namespace_def
        get_pods_list_under_default_namespace_def send_def)+

text \<open>
  C6, amended. In a run of the passive hunter that reads the token, what is published is:
  one ServiceAccountTokenAccess finding with the token, then for each probe step the run
  reaches, in the order ServerApiAccess, PodListUnderAllNamespaces,
  PodListUnderDefaultNamespace, exactly one finding with the response body if the step
  succeeds (its method returns \<^verbatim>\<open>True\<close>) and none otherwise; the run reaches a step unless
  an earlier call raised something other than \<^verbatim>\<open>ConnectionError\<close>. A run of the active
  hunter publishes nothing.
\<close>

theorem one_finding_per_successful_probe:
  assumes "token_file e = Data tok"
  shows
    "(let s1 = with_token tok self;
          r1 = server e (sent w) (api_request s1);
          r2 = server e (sent w @ [api_request s1]) (all_pods_request s1);
          r3 = server e (sent w @ [api_request s1, all_pods_request s1]) (default_pods_request s1)
      in published (snd (snd (execute e (self, w)))) =
           published w @ [ServiceAccountTokenAccess (Str tok)] @ emitted ServerApiAccess r1
             @ (if \<exists>x. r1 = Raises x then [] else emitted PodListUnderAllNamespaces r2
             @ (if \<exists>x. r2 = Raises x then [] else emitted PodListUnderDefaultNamespace r3)))
     \<and> emitted kind (Response sc c) = (if verdict (Response sc c) then [kind (Bytes c)] else [])
     \<and> emitted kind ConnectionError = []
     \<and> emitted kind (Raises x) = []
     \<and> (fst (access_api_server e (self, w)) = Inr True) =
          verdict (server e (sent w) (api_request self))
     \<and> (fst (get_pods_list_under_all_namespace e (self, w)) = Inr True) =
          verdict (server e (sent w) (all_pods_request self))
     \<and> (fst (get_pods_list_under_default_namespace e (self, w)) = Inr True) =
          verdict (server e (sent w) (default_pods_request self))
     \<and> published (snd (snd (execute_active e (aself, w)))) = published w"
proof -
  obtain rs where "published (snd (snd (execute_active e (aself, w)))) = published w
      \<and> sent (snd (snd (execute_active e (aself, w)))) = sent w @ rs \<and> mutations rs = []"
    using execute_active_frame by blast
  then show ?thesis
    unfolding Let_def
    by (simp add: execute_run(3) [OF assms] raises_iff returns_True_iff_verdict del: verdict_simps)
qed

theorem one_finding_per_successful_probe_witness:
  "token_file env_pods_refused = Data ''tok''
   \<and> published (snd (snd (execute env_pods_refused
        (AccessApiServerViaServiceAccountToken example_event, new_world)))) =
       [ServiceAccountTokenAccess (Str ''tok''), ServerApiAccess (Bytes ''{}''),
        PodListUnderDefaultNamespace (Bytes ''{}'')]
   \<and> token_file env_token_newline = Data (''tok'' @ [CHR 0x0A])
   \<and> published (snd (snd (execute env_token_newline
        (AccessApiServerViaServiceAccountToken example_event, new_world)))) =
       [ServiceAccountTokenAccess (Str (''tok'' @ [CHR 0x0A]))]"
proof -
  let ?s0 = "AccessApiServerViaServiceAccountToken example_event"
  let ?a0 = "AccessApiServerViaServiceAccountTokenActive example_event"
  let ?s1 = "with_token ''tok'' ?s0"
  let ?n = "''tok'' @ [CHR 0x0A]"
  have tok: "token_file env_pods_refused = Data ''tok''"
    by (simp add: env_pods_refused_def)
  have r1: "server env_pods_refused (sent new_world) (api_request ?s1) = Response 200 ''{}''"
    by (simp add: env_pods_refused_def api_request_def with_token_def
          AccessApiServerViaServiceAccountToken_def base_url_example)
  have r2: "server env_pods_refused (sent new_world @ [api_request ?s1]) (all_pods_request ?s1) = ConnectionError"
    by (simp add: env_pods_refused_def all_pods_request_def with_token_def
          AccessApiServerViaServiceAccountToken_def base_url_example)
  have r3: "server env_pods_refused (sent new_world @ [api_request ?s1, all_pods_request ?s1])
      (default_pods_request ?s1) = Response 200 ''{}''"
    by (simp add: env_pods_refused_def default_pods_request_def with_token_def
          AccessApiServerViaServiceAccountToken_def base_url_example)
  have a: "published (snd (snd (execute env_pods_refused (?s0, new_world)))) =
       [ServiceAccountTokenAccess (Str ''tok''), ServerApiAccess (Bytes ''{}''),
        PodListUnderDefaultNamespace (Bytes ''{}'')]"
    using one_finding_per_successful_probe [OF tok, where self = ?s0 and w = new_world
        and aself = ?a0, THEN conjunct1, unfolded Let_def r1 r2 r3]
    by (simp add: new_world_def)
  have tokn: "token_file env_token_newline = Data ?n"
    by (simp add: env_token_newline_def)
  have n1: "server env_token_newline (sent new_world) (api_request (with_token ?n ?s0)) = Raises InvalidHeader"
    by (simp add: env_token_newline_def api_request_def with_token_def bearer_def)
  have b: "published (snd (snd (execute env_token_newline (?s0, new_world)))) =
       [ServiceAccountTokenAccess (Str ?n)]"
    using one_finding_per_successful_probe [OF tokn, where self = ?s0 and w = new_world
        and aself = ?a0, THEN conjunct1, unfolded Let_def n1]
    by (simp add: new_world_def)
  from tok a tokn b show ?thesis
    by (intro conjI)
qed

section \<open>Steps that fail\<close>

text \<open>
  C4 fails on a response whose status is not 200: \<^verbatim>\<open>access_api_server\<close> returns
  \<^verbatim>\<open>False\<close> on a 403 and yet has stored the body in \<^verbatim>\<open>api_server_evidence\<close>; the
  default-namespace pod list of the active hunter returns \<^verbatim>\<open>False\<close> on a 403 whose body
  lists pods and yet has written the dict of namespaces and pod names; \<^verbatim>\<open>get_cluster_roles\<close>
  returns \<^verbatim>\<open>False\<close> on a 403 and yet has stored the body in \<^verbatim>\<open>namespace_roles_evidence\<close>.
\<close>

theorem failed_probe_overwrites_evidence:
  "fst (access_api_server env_forbidden
          (with_token ''tok'' (AccessApiServerViaServiceAccountToken example_event), new_world)) = Inr False
   \<and> api_server_evidence (with_token ''tok'' (AccessApiServerViaServiceAccountToken example_event)) = Str ''''
   \<and> api_server_evidence (fst (snd (access_api_server env_forbidden
          (with_token ''tok'' (AccessApiServerViaServiceAccountToken example_event), new_world))))
       = Bytes forbidden_body
   \<and> fst (get_pods_list_under_default_namespace_active (env_pod_list 403)
          (with_token ''tok'' (AccessApiServerViaServiceAccountTokenActive example_event), new_world))
       = Inr False
   \<and> namespaces_and_their_pod_names
        (with_token ''tok'' (AccessApiServerViaServiceAccountTokenActive example_event)) (KStr ''default'') = None
   \<and> namespaces_and_their_pod_names
        (fst (snd (get_pods_list_under_default_namespace_active (env_pod_list 403)
          (with_token ''tok'' (AccessApiServerViaServiceAccountTokenActive example_event), new_world))))
        (KStr ''default'') = Some (JStr ''web-2'')
   \<and> fst (get_cluster_roles env_forbidden
          (with_token ''tok'' (AccessApiServerViaServiceAccountTokenActive example_event), new_world))
       = Inr (Bool False)
   \<and> namespace_roles_evidence
        (with_token ''tok'' (AccessApiServerViaServiceAccountTokenActive example_event)) = Str ''''
   \<and> namespace_roles_evidence (fst (snd (get_cluster_roles env_forbidden
          (with_token ''tok'' (AccessApiServerViaServiceAccountTokenActive example_event), new_world))))
       = Bytes forbidden_body"
  by (simp add: access_api_server_def get_cluster_roles_def get_pods_list_under_default_namespace_active_def send_def
        parse_pods_def env_forbidden_def env_pod_list_def pod_list_json_def with_token_def
        AccessApiServerViaServiceAccountToken_def AccessApiServerViaServiceAccountTokenActive_def)

lemma no_finding_without_200:
  fixes self :: passive_hunter
  assumes "token_file e = Data tok"
  shows "\<forall>body. server e (sent w) (api_request (with_token tok self)) \<noteq> Response 200 body \<Longrightarrow>
           ServerApiAccess ev \<notin> set (drop (length (published w)) (published (snd (snd (execute e (self, w))))))"
    and "\<forall>body. server e (sent w @ [api_request (with_token tok self)])
              (all_pods_request (with_token tok self)) \<noteq> Response 200 body \<Longrightarrow>
           PodListUnderAllNamespaces ev \<notin>
             set (drop (length (published w)) (published (snd (snd (execute e (self, w))))))"
    and "\<forall>body. server e (sent w @ [api_request (with_token tok self), all_pods_request (with_token tok self)])
              (default_pods_request (with_token tok self)) \<noteq> Response 200 body \<Longrightarrow>
           PodListUnderDefaultNamespace ev \<notin>
             set (drop (length (published w)) (published (snd (snd (execute e (self, w))))))"
  unfolding execute_run(3) [OF assms]
  by (cases "server e (sent w) (api_request (with_token tok self))";
      cases "server e (sent w @ [api_request (with_token tok self)]) (all_pods_request (with_token tok self))";
      cases "server e (sent w @ [api_request (with_token tok self), all_pods_request (with_token tok self)])
               (default_pods_request (with_token tok self))";
      simp add: raises_def)+

text \<open>
  C4, amended. When the call of a probe step raises, the evidence state stays as it was:
  on a \<^verbatim>\<open>ConnectionError\<close> the step returns \<^verbatim>\<open>False\<close>, on any other exception the exception
  leaves the step, and in both cases nothing but the request sent is recorded. On a
  response whose status is not 200 no step returns success, but the state is written
  before the verdict: a probe step of the passive hunter has stored the body in its own
  evidence attribute, the three role steps have stored it in \<^verbatim>\<open>namespace_roles_evidence\<close>,
  a pod-list step of the active hunter may have written the dict of namespaces and pod
  names (and nothing else, whatever the response); \<^verbatim>\<open>delete_a_pod\<close>, \<^verbatim>\<open>patch_a_pod\<close> and
  \<^verbatim>\<open>get_all_namespaces\<close> change nothing. In a run of the passive hunter a step whose call
  does not bring a response with status 200 adds no finding of its kind.
\<close>

theorem failed_probe_effects:
  fixes self :: passive_hunter and aself :: active_hunter
  shows
  "(server e (sent w) (api_request self) = ConnectionError \<longrightarrow>
      access_api_server e (self, w) = (Inr False, self, w\<lparr>sent := sent w @ [api_request self]\<rparr>))
   \<and> (server e (sent w) (all_pods_request self) = ConnectionError \<longrightarrow>
      get_pods_list_under_all_namespace e (self, w) = (Inr False, self, w\<lparr>sent := sent w @ [all_pods_request self]\<rparr>))
   \<and> (server e (sent w) (default_pods_request self) = ConnectionError \<longrightarrow>
      get_pods_list_under_default_namespace e (self, w) = (Inr False, self, w\<lparr>sent := sent w @ [default_pods_request self]\<rparr>))
   \<and> (server e (sent w) (pod_request DELETE aself ns n) = ConnectionError \<longrightarrow>
      delete_a_pod e ns n (aself, w) = (Inr False, aself, w\<lparr>sent := sent w @ [pod_request DELETE aself ns n]\<rparr>))
   \<and> (server e (sent w) (pod_request PATCH aself ns n) = ConnectionError \<longrightarrow>
      patch_a_pod e ns n (aself, w) = (Inr False, aself, w\<lparr>sent := sent w @ [pod_request PATCH aself ns n]\<rparr>))
   \<and> (server e (sent w) (all_namespaces_request aself) = ConnectionError \<longrightarrow>
      get_all_namespaces e (aself, w) = (Inr False, aself, w\<lparr>sent := sent w @ [all_namespaces_request aself]\<rparr>))
   \<and> (server e (sent w) (all_pods_request aself) = ConnectionError \<longrightarrow>
      get_pods_list_under_all_namespace_active e (aself, w) = (Inr False, aself, w\<lparr>sent := sent w @ [all_pods_request aself]\<rparr>))
   \<and> (server e (sent w) (default_pods_request aself) = ConnectionError \<longrightarrow>
      get_pods_list_under_default_namespace_active e (aself, w) = (Inr False, aself, w\<lparr>sent := sent w @ [default_pods_request aself]\<rparr>))
   \<and> (server e (sent w) (rbac_request aself (''namespaces/'' @ ns @ ''/roles'')) = ConnectionError \<longrightarrow>
      get_roles_for_namespace e ns (aself, w) = (Inr (Bool False), aself, w\<lparr>sent := sent w @ [rbac_request aself (''namespaces/'' @ ns @ ''/roles'')]\<rparr>))
   \<and> (server e (sent w) (rbac_request aself ''clusterroles'') = ConnectionError \<longrightarrow>
      get_cluster_roles e (aself, w) = (Inr (Bool False), aself, w\<lparr>sent := sent w @ [rbac_request aself ''clusterroles'']\<rparr>))
   \<and> (server e (sent w) (rbac_request aself ''roles'') = ConnectionError \<longrightarrow>
      get_all_roles e (aself, w) = (Inr (Bool False), aself, w\<lparr>sent := sent w @ [rbac_request aself ''roles'']\<rparr>))
   \<and> (server e (sent w) (api_request self) = Raises x \<longrightarrow>
      access_api_server e (self, w) = (Inl x, self, w\<lparr>sent := sent w @ [api_request self]\<rparr>))
   \<and> (server e (sent w) (all_pods_request self) = Raises x \<longrightarrow>
      get_pods_list_under_all_namespace e (self, w) = (Inl x, self, w\<lparr>sent := sent w @ [all_pods_request self]\<rparr>))
   \<and> (server e (sent w) (default_pods_request self) = Raises x \<longrightarrow>
      get_pods_list_under_default_namespace e (self, w) = (Inl x, self, w\<lparr>sent := sent w @ [default_pods_request self]\<rparr>))
   \<and> (server e (sent w) (pod_request DELETE aself ns n) = Raises x \<longrightarrow>
      delete_a_pod e ns n (aself, w) = (Inl x, aself, w\<lparr>sent := sent w @ [pod_request DELETE aself ns n]\<rparr>))
   \<and> (server e (sent w) (pod_request PATCH aself ns n) = Raises x \<longrightarrow>
      patch_a_pod e ns n (aself, w) = (Inl x, aself, w\<lparr>sent := sent w @ [pod_request PATCH aself ns n]\<rparr>))
   \<and> (server e (sent w) (all_namespaces_request aself) = Raises x \<longrightarrow>
      get_all_namespaces e (aself, w) = (Inl x, aself, w\<lparr>sent := sent w @ [all_namespaces_request aself]\<rparr>))
   \<and> (server e (sent w) (all_pods_request aself) = Raises x \<longrightarrow>
      get_pods_list_under_all_namespace_active e (aself, w) = (Inl x, aself, w\<lparr>sent := sent w @ [all_pods_request aself]\<rparr>))
   \<and> (server e (sent w) (default_pods_request aself) = Raises x \<longrightarrow>
      get_pods_list_under_default_namespace_active e (aself, w) = (Inl x, aself, w\<lparr>sent := sent w @ [default_pods_request aself]\<rparr>))
   \<and> (server e (sent w) (rbac_request aself (''namespaces/'' @ ns @ ''/roles'')) = Raises x \<longrightarrow>
      get_roles_for_namespace e ns (aself, w) = (Inl x, aself, w\<lparr>sent := sent w @ [rbac_request aself (''namespaces/'' @ ns @ ''/roles'')]\<rparr>))
   \<and> (server e (sent w) (rbac_request aself ''clusterroles'') = Raises x \<longrightarrow>
      get_cluster_roles e (aself, w) = (Inl x, aself, w\<lparr>sent := sent w @ [rbac_request aself ''clusterroles'']\<rparr>))
   \<and> (server e (sent w) (rbac_request aself ''roles'') = Raises x \<longrightarrow>
      get_all_roles e (aself, w) = (Inl x, aself, w\<lparr>sent := sent w @ [rbac_request aself ''roles'']\<rparr>))
   \<and> (server e (sent w) (api_request self) = Response sc c \<and> sc \<noteq> 200 \<longrightarrow>
      access_api_server e (self, w) = (Inr False, self\<lparr>api_server_evidence := Bytes c\<rparr>, w\<lparr>sent := sent w @ [api_request self]\<rparr>))
   \<and> (server e (sent w) (all_pods_request self) = Response sc c \<and> sc \<noteq> 200 \<longrightarrow>
      get_pods_list_under_all_namespace e (self, w) = (Inr False, self\<lparr>pod_list_under_all_namespaces_evidence := Bytes c\<rparr>, w\<lparr>sent := sent w @ [all_pods_request self]\<rparr>))
   \<and> (server e (sent w) (default_pods_request self) = Response sc c \<and> sc \<noteq> 200 \<longrightarrow>
      get_pods_list_under_default_namespace e (self, w) = (Inr False, self\<lparr>pod_list_under_default_namespace_evidence := Bytes c\<rparr>, w\<lparr>sent := sent w @ [default_pods_request self]\<rparr>))
   \<and> (server e (sent w) (pod_request DELETE aself ns n) = Response sc c \<and> sc \<noteq> 200 \<longrightarrow>
      delete_a_pod e ns n (aself, w) = (Inr False, aself, w\<lparr>sent := sent w @ [pod_request DELETE aself ns n]\<rparr>))
   \<and> (server e (sent w) (pod_request PATCH aself ns n) = Response sc c \<and> sc \<noteq> 200 \<longrightarrow>
      patch_a_pod e ns n (aself, w) = (Inr False, aself, w\<lparr>sent := sent w @ [pod_request PATCH aself ns n]\<rparr>))
   \<and> (server e (sent w) (rbac_request aself (''namespaces/'' @ ns @ ''/roles'')) = Response sc c \<and> sc \<noteq> 200 \<longrightarrow>
      get_roles_for_namespace e ns (aself, w) =
        (Inr (Bool False), aself\<lparr>namespace_roles_evidence := Bytes c\<rparr>, w\<lparr>sent := sent w @ [rbac_request aself (''namespaces/'' @ ns @ ''/roles'')]\<rparr>))
   \<and> (server e (sent w) (rbac_request aself ''clusterroles'') = Response sc c \<and> sc \<noteq> 200 \<longrightarrow>
      get_cluster_roles e (aself, w) =
        (Inr (Bool False), aself\<lparr>namespace_roles_evidence := Bytes c\<rparr>, w\<lparr>sent := sent w @ [rbac_request aself ''clusterroles'']\<rparr>))
   \<and> (server e (sent w) (rbac_request aself ''roles'') = Response sc c \<and> sc \<noteq> 200 \<longrightarrow>
      get_all_roles e (aself, w) =
        (Inr (Bool False), aself\<lparr>namespace_roles_evidence := Bytes c\<rparr>, w\<lparr>sent := sent w @ [rbac_request aself ''roles'']\<rparr>))
   \<and> (server e (sent w) (all_namespaces_request aself) = Response sc c \<and> sc \<noteq> 200 \<longrightarrow>
      fst (get_all_namespaces e (aself, w)) \<noteq> Inr True
      \<and> snd (get_all_namespaces e (aself, w)) = (aself, w\<lparr>sent := sent w @ [all_namespaces_request aself]\<rparr>))
   \<and> (server e (sent w) (all_pods_request aself) = Response sc c \<and> sc \<noteq> 200 \<longrightarrow>
      fst (get_pods_list_under_all_namespace_active e (aself, w)) \<noteq> Inr True)
   \<and> (server e (sent w) (default_pods_request aself) = Response sc c \<and> sc \<noteq> 200 \<longrightarrow>
      fst (get_pods_list_under_default_namespace_active e (aself, w)) \<noteq> Inr True)
   \<and> (\<exists>res m. get_pods_list_under_all_namespace_active e (aself, w) =
        (res, aself\<lparr>namespaces_and_their_pod_names := m\<rparr>, w\<lparr>sent := sent w @ [all_pods_request aself]\<rparr>))
   \<and> (\<exists>res m. get_pods_list_under_default_namespace_active e (aself, w) =
        (res, aself\<lparr>namespaces_and_their_pod_names := m\<rparr>, w\<lparr>sent := sent w @ [default_pods_request aself]\<rparr>))
   \<and> (token_file e = Data tok
        \<and> (\<forall>body. server e (sent w) (api_request (with_token tok self)) \<noteq> Response 200 body) \<longrightarrow>
      (\<forall>ev. ServerApiAccess ev \<notin> set (drop (length (published w)) (published (snd (snd (execute e (self, w))))))))
   \<and> (token_file e = Data tok
        \<and> (\<forall>body. server e (sent w @ [api_request (with_token tok self)]) (all_pods_request (with_token tok self)) \<noteq> Response 200 body) \<longrightarrow>
      (\<forall>ev. PodListUnderAllNamespaces ev \<notin> set (drop (length (published w)) (published (snd (snd (execute e (self, w))))))))
   \<and> (token_file e = Data tok
        \<and> (\<forall>body. server e (sent w @ [api_request (with_token tok self), all_pods_request (with_token tok self)])
          (default_pods_request (with_token tok self)) \<noteq> Response 200 body) \<longrightarrow>
      (\<forall>ev. PodListUnderDefaultNamespace ev \<notin> set (drop (length (published w)) (published (snd (snd (execute e (self, w))))))))"
  by (intro conjI impI allI; (elim conjE)?;
      simp add: access_api_server_ConnectionError access_api_server_Raises access_api_server_Response
        get_pods_list_under_all_namespace_ConnectionError get_pods_list_under_all_namespace_Raises
        get_pods_list_under_all_namespace_Response
        get_pods_list_under_default_namespace_ConnectionError get_pods_list_under_default_namespace_Raises
        get_pods_list_under_default_namespace_Response
        delete_a_pod_ConnectionError delete_a_pod_Raises delete_a_pod_Response
        patch_a_pod_ConnectionError patch_a_pod_Raises patch_a_pod_Response
        get_all_namespaces_ConnectionError get_all_namespaces_Raises get_all_namespaces_Response
        get_pods_list_under_all_namespace_active_ConnectionError
        get_pods_list_under_all_namespace_active_Raises
        get_pods_list_under_all_namespace_active_Response
        get_pods_list_under_all_namespace_active_frame
        get_pods_list_under_default_namespace_active_ConnectionError
        get_pods_list_under_default_namespace_active_Raises
        get_pods_list_under_default_namespace_active_Response
        get_pods_list_under_default_namespace_active_frame
        get_roles_for_namespace_ConnectionError get_roles_for_namespace_Raises
        get_roles_for_namespace_Response
        get_cluster_roles_ConnectionError get_cluster_roles_Raises get_cluster_roles_Response
        get_all_roles_ConnectionError get_all_roles_Raises get_all_roles_Response
        no_finding_without_200
        split: option.splits)

theorem failed_probe_effects_witness:
  "(\<forall>history r. server env_refused history r = ConnectionError)
   \<and> (\<forall>history r. server env_forbidden history r = Response 403 forbidden_body)
   \<and> token_file env_refused = Data ''tok''
   \<and> access_api_server env_refused (AccessApiServerViaServiceAccountToken example_event, new_world) =
       (Inr False, AccessApiServerViaServiceAccountToken example_event,
        new_world\<lparr>sent := [api_request (AccessApiServerViaServiceAccountToken example_event)]\<rparr>)
   \<and> get_cluster_roles env_refused (AccessApiServerViaServiceAccountTokenActive example_event, new_world) =
       (Inr (Bool False), AccessApiServerViaServiceAccountTokenActive example_event,
        new_world\<lparr>sent := [rbac_request (AccessApiServerViaServiceAccountTokenActive example_event) ''clusterroles'']\<rparr>)
   \<and> get_pods_list_under_default_namespace_active env_refused
        (AccessApiServerViaServiceAccountTokenActive example_event, new_world) =
       (Inr False, AccessApiServerViaServiceAccountTokenActive example_event,
        new_world\<lparr>sent := [default_pods_request (AccessApiServerViaServiceAccountTokenActive example_event)]\<rparr>)
   \<and> access_api_server env_forbidden (AccessApiServerViaServiceAccountToken example_event, new_world) =
       (Inr False, (AccessApiServerViaServiceAccountToken example_event)\<lparr>api_server_evidence := Bytes forbidden_body\<rparr>,
        new_world\<lparr>sent := [api_request (AccessApiServerViaServiceAccountToken example_event)]\<rparr>)
   \<and> get_cluster_roles env_forbidden (AccessApiServerViaServiceAccountTokenActive example_event, new_world) =
       (Inr (Bool False),
        (AccessApiServerViaServiceAccountTokenActive example_event)\<lparr>namespace_roles_evidence := Bytes forbidden_body\<rparr>,
        new_world\<lparr>sent := [rbac_request (AccessApiServerViaServiceAccountTokenActive example_event) ''clusterroles'']\<rparr>)
   \<and> delete_a_pod env_forbidden ''default'' ''web-1''
        (AccessApiServerViaServiceAccountTokenActive example_event, new_world) =
       (Inr False, AccessApiServerViaServiceAccountTokenActive example_event,
        new_world\<lparr>sent := [pod_request DELETE (AccessApiServerViaServiceAccountTokenActive example_event)
                                ''default'' ''web-1'']\<rparr>)
   \<and> fst (get_pods_list_under_default_namespace_active env_forbidden
        (AccessApiServerViaServiceAccountTokenActive example_event, new_world)) \<noteq> Inr True
   \<and> access_api_server env_token_newline
        (with_token (''tok'' @ [CHR 0x0A]) (AccessApiServerViaServiceAccountToken example_event), new_world) =
       (Inl InvalidHeader, with_token (''tok'' @ [CHR 0x0A]) (AccessApiServerViaServiceAccountToken example_event),
        new_world\<lparr>sent := [api_request (with_token (''tok'' @ [CHR 0x0A])
                                  (AccessApiServerViaServiceAccountToken example_event))]\<rparr>)
   \<and> (\<forall>ev. ServerApiAccess ev \<notin> set (published (snd (snd (execute env_refused
        (AccessApiServerViaServiceAccountToken example_event, new_world))))))"
proof -
  let ?p = "AccessApiServerViaServiceAccountToken example_event"
  let ?a = "AccessApiServerViaServiceAccountTokenActive example_event"
  let ?n = "with_token (''tok'' @ [CHR 0x0A]) ?p"
  have refused: "server env_refused history r = ConnectionError" for history r
    by (simp add: env_refused_def)
  have forbidden: "server env_forbidden history r = Response 403 forbidden_body" for history r
    by (simp add: env_forbidden_def)
  have newline: "server env_token_newline (sent new_world) (api_request ?n) = Raises InvalidHeader"
    by (simp add: env_token_newline_def api_request_def with_token_def bearer_def)
  have tok: "token_file env_refused = Data ''tok''"
    by (simp add: env_refused_def)
  have s: "sent new_world = []" and q: "published new_world = []"
    by (simp_all add: new_world_def)
  note r = failed_probe_effects [where e = env_refused and w = new_world and self = ?p and aself = ?a
             and tok = "''tok''"]
  note f = failed_probe_effects [where e = env_forbidden and w = new_world and self = ?p and aself = ?a
             and sc = 403 and c = forbidden_body and ns = "''default''" and n = "''web-1''"]
  note h = failed_probe_effects [where e = env_token_newline and w = new_world and self = ?n
             and x = InvalidHeader]
  have a: "access_api_server env_refused (?p, new_world) =
       (Inr False, ?p, new_world\<lparr>sent := sent new_world @ [api_request ?p]\<rparr>)"
    using r [THEN conjunct1] refused by simp
  have b: "get_cluster_roles env_refused (?a, new_world) =
       (Inr (Bool False), ?a, new_world\<lparr>sent := sent new_world @ [rbac_request ?a ''clusterroles'']\<rparr>)"
    using r [THEN conjunct2, THEN conjunct2, THEN conjunct2, THEN conjunct2, THEN conjunct2, THEN conjunct2, THEN conjunct2, THEN conjunct2, THEN conjunct2, THEN conjunct1] refused by simp
  have c: "get_pods_list_under_default_namespace_active env_refused (?a, new_world) =
       (Inr False, ?a, new_world\<lparr>sent := sent new_world @ [default_pods_request ?a]\<rparr>)"
    using r [THEN conjunct2, THEN conjunct2, THEN conjunct2, THEN conjunct2, THEN conjunct2, THEN conjunct2, THEN conjunct2, THEN conjunct1] refused by simp
  have d: "access_api_server env_forbidden (?p, new_world) =
       (Inr False, ?p\<lparr>api_server_evidence := Bytes forbidden_body\<rparr>,
        new_world\<lparr>sent := sent new_world @ [api_request ?p]\<rparr>)"
    using f [THEN conjunct2, THEN conjunct2, THEN conjunct2, THEN conjunct2, THEN conjunct2, THEN conjunct2, THEN conjunct2, THEN conjunct2, THEN conjunct2, THEN conjunct2, THEN conjunct2, THEN conjunct2, THEN conjunct2, THEN conjunct2, THEN conjunct2, THEN conjunct2, THEN conjunct2, THEN conjunct2, THEN conjunct2, THEN conjunct2, THEN conjunct2, THEN conjunct2, THEN conjunct1] forbidden by simp
  have e: "get_cluster_roles env_forbidden (?a, new_world) =
       (Inr (Bool False), ?a\<lparr>namespace_roles_evidence := Bytes forbidden_body\<rparr>,
        new_world\<lparr>sent := sent new_world @ [rbac_request ?a ''clusterroles'']\<rparr>)"
    using f [THEN conjunct2, THEN conjunct2, THEN conjunct2, THEN conjunct2, THEN conjunct2, THEN conjunct2, THEN conjunct2, THEN conjunct2, THEN conjunct2, THEN conjunct2, THEN conjunct2, THEN conjunct2, THEN conjunct2, THEN conjunct2, THEN conjunct2, THEN conjunct2, THEN conjunct2, THEN conjunct2, THEN conjunct2, THEN conjunct2, THEN conjunct2, THEN conjunct2, THEN conjunct2, THEN conjunct2, THEN conjunct2, THEN conjunct2, THEN conjunct2, THEN conjunct2, THEN conjunct1] forbidden by simp
  have g: "delete_a_pod env_forbidden ''default'' ''web-1'' (?a, new_world) =
       (Inr False, ?a, new_world\<lparr>sent := sent new_world @ [pod_request DELETE ?a ''default'' ''web-1'']\<rparr>)"
    using f [THEN conjunct2, THEN conjunct2, THEN conjunct2, THEN conjunct2, THEN conjunct2, THEN conjunct2, THEN conjunct2, THEN conjunct2, THEN conjunct2, THEN conjunct2, THEN conjunct2, THEN conjunct2, THEN conjunct2, THEN conjunct2, THEN conjunct2, THEN conjunct2, THEN conjunct2, THEN conjunct2, THEN conjunct2, THEN conjunct2, THEN conjunct2, THEN conjunct2, THEN conjunct2, THEN conjunct2, THEN conjunct2, THEN conjunct1] forbidden by simp
  have i: "fst (get_pods_list_under_default_namespace_active env_forbidden (?a, new_world)) \<noteq> Inr True"
    using f [THEN conjunct2, THEN conjunct2, THEN conjunct2, THEN conjunct2, THEN conjunct2, THEN conjunct2, THEN conjunct2, THEN conjunct2, THEN conjunct2, THEN conjunct2, THEN conjunct2, THEN conjunct2, THEN conjunct2, THEN conjunct2, THEN conjunct2, THEN conjunct2, THEN conjunct2, THEN conjunct2, THEN conjunct2, THEN conjunct2, THEN conjunct2, THEN conjunct2, THEN conjunct2, THEN conjunct2, THEN conjunct2, THEN conjunct2, THEN conjunct2, THEN conjunct2, THEN conjunct2, THEN conjunct2, THEN conjunct2, THEN conjunct2, THEN conjunct1] forbidden by simp
  have j: "access_api_server env_token_newline (?n, new_world) =
       (Inl InvalidHeader, ?n, new_world\<lparr>sent := sent new_world @ [api_request ?n]\<rparr>)"
    using h [THEN conjunct2, THEN conjunct2, THEN conjunct2, THEN conjunct2, THEN conjunct2, THEN conjunct2, THEN conjunct2, THEN conjunct2, THEN conjunct2, THEN conjunct2, THEN conjunct2, THEN conjunct1] newline by simp
  have k: "ServerApiAccess ev \<notin> set (published (snd (snd (execute env_refused (?p, new_world)))))" for ev
    using r [THEN conjunct2, THEN conjunct2, THEN conjunct2, THEN conjunct2, THEN conjunct2, THEN conjunct2, THEN conjunct2, THEN conjunct2, THEN conjunct2, THEN conjunct2, THEN conjunct2, THEN conjunct2, THEN conjunct2, THEN conjunct2, THEN conjunct2, THEN conjunct2, THEN conjunct2, THEN conjunct2, THEN conjunct2, THEN conjunct2, THEN conjunct2, THEN conjunct2, THEN conjunct2, THEN conjunct2, THEN conjunct2, THEN conjunct2, THEN conjunct2, THEN conjunct2, THEN conjunct2, THEN conjunct2, THEN conjunct2, THEN conjunct2, THEN conjunct2, THEN conjunct2, THEN conjunct2, THEN conjunct1] tok refused by (simp add: q)
  from a b c d e g i j k refused forbidden tok show ?thesis
    unfolding s append_Nil by (intro conjI allI)
qed

section \<open>The empty body\<close>

text \<open>
  C10 fails in the active hunter: on a response with status 200 and an empty body the
  two pod-list steps and \<^verbatim>\<open>get_all_namespaces\<close> raise \<^verbatim>\<open>ValueError\<close> from \<^verbatim>\<open>json.loads\<close>
  instead of classifying it as a success, the run ends with that exception, and no
  finding is published.
\<close>

theorem active_empty_body_raises:
  "(\<forall>history r. server env_empty_200 history r = Response 200 '''')
   \<and> json_loads env_empty_200 '''' = None
   \<and> fst (get_pods_list_under_all_namespace_active env_empty_200
          (with_token ''tok'' (AccessApiServerViaServiceAccountTokenActive example_event), new_world))
       = Inl ValueError
   \<and> fst (get_pods_list_under_default_namespace_active env_empty_200
          (with_token ''tok'' (AccessApiServerViaServiceAccountTokenActive example_event), new_world))
       = Inl ValueError
   \<and> fst (get_all_namespaces env_empty_200
          (with_token ''tok'' (AccessApiServerViaServiceAccountTokenActive example_event), new_world))
       = Inl ValueError
   \<and> fst (execute_active env_empty_200
          (AccessApiServerViaServiceAccountTokenActive example_event, new_world)) = Some ValueError
   \<and> published (snd (snd (execute_active env_empty_200
          (AccessApiServerViaServiceAccountTokenActive example_event, new_world)))) = []"
  by (simp add: execute_active_def get_service_account_token_def
        get_pods_list_under_all_namespace_active_def get_pods_list_under_default_namespace_active_def
        get_all_namespaces_def send_def parse_pods_def env_empty_200_def new_world_def)

lemma finding_for_200:
  fixes self :: passive_hunter
  assumes "token_file e = Data tok"
  shows "server e (sent w) (api_request (with_token tok self)) = Response 200 c \<Longrightarrow>
           ServerApiAccess (Bytes c) \<in> set (published (snd (snd (execute e (self, w)))))"
    and "\<forall>x. server e (sent w) (api_request (with_token tok self)) \<noteq> Raises x \<Longrightarrow>
         server e (sent w @ [api_request (with_token tok self)])
              (all_pods_request (with_token tok self)) = Response 200 c \<Longrightarrow>
           PodListUnderAllNamespaces (Bytes c) \<in> set (published (snd (snd (execute e (self, w)))))"
    and "\<forall>x. server e (sent w) (api_request (with_token tok self)) \<noteq> Raises x \<Longrightarrow>
         \<forall>x. server e (sent w @ [api_request (with_token tok self)])
              (all_pods_request (with_token tok self)) \<noteq> Raises x \<Longrightarrow>
         server e (sent w @ [api_request (with_token tok self), all_pods_request (with_token tok self)])
              (default_pods_request (with_token tok self)) = Response 200 c \<Longrightarrow>
           PodListUnderDefaultNamespace (Bytes c) \<in> set (published (snd (snd (execute e (self, w)))))"
  unfolding execute_run(3) [OF assms]
  by (simp_all add: raises_iff)

text \<open>
  C10, amended. In every probe method the comparison \<^verbatim>\<open>res.content != ''\<close> sets a
  \<^verbatim>\<open>bytes\<close> object against a \<^verbatim>\<open>str\<close> object and is always true, so a method that reaches
  its \<^verbatim>\<open>return\<close> decides by the status code alone, whatever the body, the empty one
  included. The three probe methods of the passive hunter, \<^verbatim>\<open>delete_a_pod\<close> and
  \<^verbatim>\<open>patch_a_pod\<close> return \<^verbatim>\<open>True\<close> exactly for status 200; the role methods return the body
  for status 200 and \<^verbatim>\<open>False\<close> otherwise. The pod-list methods of the active hunter and
  \<^verbatim>\<open>get_all_namespaces\<close> parse the body first: on a body that \<^verbatim>\<open>json.loads\<close> rejects they
  raise \<^verbatim>\<open>ValueError\<close>, and when they do return it is \<^verbatim>\<open>True\<close> exactly for status 200. In a
  run of the passive hunter a step that is reached and gets status 200 has its finding
  published with the body as evidence; a run of the active hunter publishes nothing.
\<close>

theorem status_alone_decides_verdict:
  fixes self :: passive_hunter and aself :: active_hunter
  assumes "token_file e = Data tok"
  shows
  "Bytes c \<noteq> Str t
   \<and> (server e (sent w) (api_request self) = Response sc c \<longrightarrow>
      access_api_server e (self, w) = (Inr (sc = 200), self\<lparr>api_server_evidence := Bytes c\<rparr>, w\<lparr>sent := sent w @ [api_request self]\<rparr>))
   \<and> (server e (sent w) (all_pods_request self) = Response sc c \<longrightarrow>
      get_pods_list_under_all_namespace e (self, w) = (Inr (sc = 200), self\<lparr>pod_list_under_all_namespaces_evidence := Bytes c\<rparr>, w\<lparr>sent := sent w @ [all_pods_request self]\<rparr>))
   \<and> (server e (sent w) (default_pods_request self) = Response sc c \<longrightarrow>
      get_pods_list_under_default_namespace e (self, w) = (Inr (sc = 200), self\<lparr>pod_list_under_default_namespace_evidence := Bytes c\<rparr>, w\<lparr>sent := sent w @ [default_pods_request self]\<rparr>))
   \<and> (server e (sent w) (pod_request DELETE aself ns n) = Response sc c \<longrightarrow>
      delete_a_pod e ns n (aself, w) = (Inr (sc = 200), aself, w\<lparr>sent := sent w @ [pod_request DELETE aself ns n]\<rparr>))
   \<and> (server e (sent w) (pod_request PATCH aself ns n) = Response sc c \<longrightarrow>
      patch_a_pod e ns n (aself, w) = (Inr (sc = 200), aself, w\<lparr>sent := sent w @ [pod_request PATCH aself ns n]\<rparr>))
   \<and> (server e (sent w) (rbac_request aself (''namespaces/'' @ ns @ ''/roles'')) = Response sc c \<longrightarrow>
      get_roles_for_namespace e ns (aself, w) =
        (Inr (if sc = 200 then Bytes c else Bool False), aself\<lparr>namespace_roles_evidence := Bytes c\<rparr>,
         w\<lparr>sent := sent w @ [rbac_request aself (''namespaces/'' @ ns @ ''/roles'')]\<rparr>))
   \<and> (server e (sent w) (rbac_request aself ''clusterroles'') = Response sc c \<longrightarrow>
      get_cluster_roles e (aself, w) =
        (Inr (if sc = 200 then Bytes c else Bool False), aself\<lparr>namespace_roles_evidence := Bytes c\<rparr>,
         w\<lparr>sent := sent w @ [rbac_request aself ''clusterroles'']\<rparr>))
   \<and> (server e (sent w) (rbac_request aself ''roles'') = Response sc c \<longrightarrow>
      get_all_roles e (aself, w) =
        (Inr (if sc = 200 then Bytes c else Bool False), aself\<lparr>namespace_roles_evidence := Bytes c\<rparr>,
         w\<lparr>sent := sent w @ [rbac_request aself ''roles'']\<rparr>))
   \<and> (server e (sent w) (all_namespaces_request aself) = Response sc c \<longrightarrow>
      get_all_namespaces e (aself, w) =
        (case json_loads e c of None \<Rightarrow> Inl ValueError | Some parsed \<Rightarrow> Inr (sc = 200), aself,
         w\<lparr>sent := sent w @ [all_namespaces_request aself]\<rparr>))
   \<and> (server e (sent w) (all_pods_request aself) = Response sc c \<longrightarrow>
      fst (get_pods_list_under_all_namespace_active e (aself, w)) =
        (case fst (parse_pods e c aself) of Some err \<Rightarrow> Inl err | None \<Rightarrow> Inr (sc = 200)))
   \<and> (server e (sent w) (default_pods_request aself) = Response sc c \<longrightarrow>
      fst (get_pods_list_under_default_namespace_active e (aself, w)) =
        (case fst (parse_pods e c aself) of Some err \<Rightarrow> Inl err | None \<Rightarrow> Inr (sc = 200)))
   \<and> (json_loads e c = None \<longrightarrow> parse_pods e c aself = (Some ValueError, aself))
   \<and> (server e (sent w) (api_request (with_token tok self)) = Response 200 c \<longrightarrow>
      ServerApiAccess (Bytes c) \<in> set (published (snd (snd (execute e (self, w))))))
   \<and> ((\<forall>x. server e (sent w) (api_request (with_token tok self)) \<noteq> Raises x)
        \<and> server e (sent w @ [api_request (with_token tok self)]) (all_pods_request (with_token tok self)) = Response 200 c \<longrightarrow>
      PodListUnderAllNamespaces (Bytes c) \<in> set (published (snd (snd (execute e (self, w))))))
   \<and> ((\<forall>x. server e (sent w) (api_request (with_token tok self)) \<noteq> Raises x)
        \<and> (\<forall>x. server e (sent w @ [api_request (with_token tok self)]) (all_pods_request (with_token tok self)) \<noteq> Raises x)
        \<and> server e (sent w @ [api_request (with_token tok self), all_pods_request (with_token tok self)])
              (default_pods_request (with_token tok self)) = Response 200 c \<longrightarrow>
      PodListUnderDefaultNamespace (Bytes c) \<in> set (published (snd (snd (execute e (self, w))))))
   \<and> published (snd (snd (execute_active e (aself, w)))) = published w"
proof -
  obtain rs where "published (snd (snd (execute_active e (aself, w)))) = published w
      \<and> sent (snd (snd (execute_active e (aself, w)))) = sent w @ rs \<and> mutations rs = []"
    using execute_active_frame by blast
  then show ?thesis
    by (intro conjI impI allI; (elim conjE)?;
        simp add: access_api_server_Response get_pods_list_under_all_namespace_Response
          get_pods_list_under_default_namespace_Response delete_a_pod_Response patch_a_pod_Response
          get_roles_for_namespace_Response get_cluster_roles_Response get_all_roles_Response
          get_all_namespaces_Response get_pods_list_under_all_namespace_active_Response
          get_pods_list_under_default_namespace_active_Response parse_pods_no_json
          finding_for_200 [OF assms])
qed

theorem status_alone_decides_verdict_witness:
  "token_file env_empty_200 = Data ''tok''
   \<and> (\<forall>history r. server env_empty_200 history r = Response 200 '''')
   \<and> access_api_server env_empty_200 (AccessApiServerViaServiceAccountToken example_event, new_world) =
       (Inr True, (AccessApiServerViaServiceAccountToken example_event)\<lparr>api_server_evidence := Bytes ''''\<rparr>,
        new_world\<lparr>sent := [api_request (AccessApiServerViaServiceAccountToken example_event)]\<rparr>)
   \<and> delete_a_pod env_empty_200 ''default'' ''web-1''
        (AccessApiServerViaServiceAccountTokenActive example_event, new_world) =
       (Inr True, AccessApiServerViaServiceAccountTokenActive example_event,
        new_world\<lparr>sent := [pod_request DELETE (AccessApiServerViaServiceAccountTokenActive example_event)
                                ''default'' ''web-1'']\<rparr>)
   \<and> get_cluster_roles env_empty_200 (AccessApiServerViaServiceAccountTokenActive example_event, new_world) =
       (Inr (Bytes ''''),
        (AccessApiServerViaServiceAccountTokenActive example_event)\<lparr>namespace_roles_evidence := Bytes ''''\<rparr>,
        new_world\<lparr>sent := [rbac_request (AccessApiServerViaServiceAccountTokenActive example_event) ''clusterroles'']\<rparr>)
   \<and> fst (get_pods_list_under_all_namespace_active env_empty_200
        (AccessApiServerViaServiceAccountTokenActive example_event, new_world)) = Inl ValueError
   \<and> ServerApiAccess (Bytes '''') \<in> set (published (snd (snd (execute env_empty_200
        (AccessApiServerViaServiceAccountToken example_event, new_world)))))
   \<and> PodListUnderAllNamespaces (Bytes '''') \<in> set (published (snd (snd (execute env_empty_200
        (AccessApiServerViaServiceAccountToken example_event, new_world)))))
   \<and> PodListUnderDefaultNamespace (Bytes '''') \<in> set (published (snd (snd (execute env_empty_200
        (AccessApiServerViaServiceAccountToken example_event, new_world)))))"
proof -
  let ?p = "AccessApiServerViaServiceAccountToken example_event"
  let ?a = "AccessApiServerViaServiceAccountTokenActive example_event"
  have tok: "token_file env_empty_200 = Data ''tok''"
    by (simp add: env_empty_200_def)
  have answer: "server env_empty_200 history r = Response 200 ''''" for history r
    by (simp add: env_empty_200_def)
  have loads: "json_loads env_empty_200 '''' = None"
    by (simp add: env_empty_200_def)
  have s: "sent new_world = []"
    by (simp add: new_world_def)
  note t = status_alone_decides_verdict [OF tok, where w = new_world and self = ?p and aself = ?a
             and sc = 200 and c = "''''" and ns = "''default''" and n = "''web-1''"]
  have a: "access_api_server env_empty_200 (?p, new_world) =
       (Inr True, ?p\<lparr>api_server_evidence := Bytes ''''\<rparr>, new_world\<lparr>sent := sent new_world @ [api_request ?p]\<rparr>)"
    using t [THEN conjunct2, THEN conjunct1] answer by simp
  have b: "delete_a_pod env_empty_200 ''default'' ''web-1'' (?a, new_world) =
       (Inr True, ?a, new_world\<lparr>sent := sent new_world @ [pod_request DELETE ?a ''default'' ''web-1'']\<rparr>)"
    using t [THEN conjunct2, THEN conjunct2, THEN conjunct2, THEN conjunct2, THEN conjunct1] answer by simp
  have c: "get_cluster_roles env_empty_200 (?a, new_world) =
       (Inr (Bytes ''''), ?a\<lparr>namespace_roles_evidence := Bytes ''''\<rparr>,
        new_world\<lparr>sent := sent new_world @ [rbac_request ?a ''clusterroles'']\<rparr>)"
    using t [THEN conjunct2, THEN conjunct2, THEN conjunct2, THEN conjunct2, THEN conjunct2, THEN conjunct2, THEN conjunct2, THEN conjunct1] answer by simp
  have "parse_pods env_empty_200 '''' ?a = (Some ValueError, ?a)"
    using t [THEN conjunct2, THEN conjunct2, THEN conjunct2, THEN conjunct2, THEN conjunct2, THEN conjunct2, THEN conjunct2, THEN conjunct2, THEN conjunct2, THEN conjunct2, THEN conjunct2, THEN conjunct2, THEN conjunct1] loads by simp
  then have d: "fst (get_pods_list_under_all_namespace_active env_empty_200 (?a, new_world)) = Inl ValueError"
    using t [THEN conjunct2, THEN conjunct2, THEN conjunct2, THEN conjunct2, THEN conjunct2, THEN conjunct2, THEN conjunct2, THEN conjunct2, THEN conjunct2, THEN conjunct2, THEN conjunct1] answer by simp
  have f: "ServerApiAccess (Bytes '''') \<in> set (published (snd (snd (execute env_empty_200 (?p, new_world)))))"
    using t [THEN conjunct2, THEN conjunct2, THEN conjunct2, THEN conjunct2, THEN conjunct2, THEN conjunct2, THEN conjunct2, THEN conjunct2, THEN conjunct2, THEN conjunct2, THEN conjunct2, THEN conjunct2, THEN conjunct2, THEN conjunct1] answer by simp
  have g: "PodListUnderAllNamespaces (Bytes '''') \<in> set (published (snd (snd (execute env_empty_200 (?p, new_world)))))"
    using t [THEN conjunct2, THEN conjunct2, THEN conjunct2, THEN conjunct2, THEN conjunct2, THEN conjunct2, THEN conjunct2, THEN conjunct2, THEN conjunct2, THEN conjunct2, THEN conjunct2, THEN conjunct2, THEN conjunct2, THEN conjunct2, THEN conjunct1] answer by simp
  have h: "PodListUnderDefaultNamespace (Bytes '''') \<in> set (published (snd (snd (execute env_empty_200 (?p, new_world)))))"
    using t [THEN conjunct2, THEN conjunct2, THEN conjunct2, THEN conjunct2, THEN conjunct2, THEN conjunct2, THEN conjunct2, THEN conjunct2, THEN conjunct2, THEN conjunct2, THEN conjunct2, THEN conjunct2, THEN conjunct2, THEN conjunct2, THEN conjunct2, THEN conjunct1] answer by simp
  from tok answer a b c d f g h show ?thesis
    unfolding s append_Nil by (intro conjI allI)
qed

end
